theory Spec2Isabelle
  imports Complex_Main
begin

section \<open>Python values and exceptions\<close>

text \<open>
  The repository is Python on top of TensorFlow and PyTorch. Every \<^verbatim>\<open>assert\<close>, every
  failing operator and every read of a name that was never bound is a branch of the
  model: functions return \<open>error + 'a\<close>, with \<open>Inl\<close> carrying the exception that
  propagates to the caller. \<open>FrameworkError\<close> stands for the exception with which the
  tensor framework rejects a call (\<^verbatim>\<open>InvalidArgumentError\<close> or \<^verbatim>\<open>ValueError\<close> raised by
  TensorFlow, \<^verbatim>\<open>RuntimeError\<close> or \<^verbatim>\<open>IndexError\<close> raised by PyTorch); the other
  constructors are the Python exceptions of the same name.
\<close>

datatype error =
    AssertionError string
  | AttributeError string
  | UnboundLocalError string
  | ZeroDivisionError
  | TypeError
  | IndexError
  | ValueError
  | FrameworkError

definition bind :: "error + 'a \<Rightarrow> ('a \<Rightarrow> error + 'b) \<Rightarrow> error + 'b" where
  "bind m f = (case m of Inl e \<Rightarrow> Inl e | Inr x \<Rightarrow> f x)"

text \<open>A list comprehension whose body may raise: the first exception ends it.\<close>

fun traverse :: "('a \<Rightarrow> error + 'b) \<Rightarrow> 'a list \<Rightarrow> error + 'b list" where
  "traverse f [] = Inr []"
| "traverse f (x # xs) = bind (f x) (\<lambda>y. bind (traverse f xs) (\<lambda>ys. Inr (y # ys)))"

text \<open>\<^verbatim>\<open>xs[i]\<close> for a non-negative \<^verbatim>\<open>i\<close>.\<close>

definition py_index :: "'a list \<Rightarrow> nat \<Rightarrow> error + 'a" where
  "py_index xs i = (if i < length xs then Inr (xs ! i) else Inl IndexError)"

text \<open>\<^verbatim>\<open>a // b\<close> on sizes.\<close>

definition floordiv :: "nat \<Rightarrow> nat \<Rightarrow> error + nat" where
  "floordiv a b = (if b = 0 then Inl ZeroDivisionError else Inr (a div b))"

text \<open>
  \<^verbatim>\<open>int(np.sqrt(n))\<close> for a size \<^verbatim>\<open>n\<close>: the integer square root. (The source computes it
  in double precision, which is exact for every \<^verbatim>\<open>n\<close> below \<^verbatim>\<open>2**52\<close>.)
\<close>

primrec isqrt :: "nat \<Rightarrow> nat" where
  "isqrt 0 = 0"
| "isqrt (Suc n) = (let r = isqrt n in if (r + 1) * (r + 1) \<le> Suc n then r + 1 else r)"

text \<open>\<^verbatim>\<open>int(np.sqrt(n)) == np.sqrt(n)\<close>: the square root is a whole number.\<close>

definition sqrt_is_whole :: "nat \<Rightarrow> bool" where
  "sqrt_is_whole n \<longleftrightarrow> isqrt n * isqrt n = n"

text \<open>
  An argument that the source annotates as \<^verbatim>\<open>List[int]\<close> and uses as an \<^verbatim>\<open>int\<close> is
  modelled with both possibilities. \<^verbatim>\<open>a % b\<close> and \<^verbatim>\<open>a // b\<close> with a list on either side
  raise \<^verbatim>\<open>TypeError\<close>, with a zero divisor \<^verbatim>\<open>ZeroDivisionError\<close>. Python rounds
  towards minus infinity, as \<open>div\<close> and \<open>mod\<close> on \<open>int\<close> do.
\<close>

datatype pyarg = PyInt int | PyIntList "int list"

definition py_mod :: "pyarg \<Rightarrow> int \<Rightarrow> error + int" where
  "py_mod a b =
     (case a of
        PyIntList _ \<Rightarrow> Inl TypeError
      | PyInt x \<Rightarrow> if b = 0 then Inl ZeroDivisionError else Inr (x mod b))"

definition py_floordiv :: "pyarg \<Rightarrow> int \<Rightarrow> error + int" where
  "py_floordiv a b =
     (case a of
        PyIntList _ \<Rightarrow> Inl TypeError
      | PyInt x \<Rightarrow> if b = 0 then Inl ZeroDivisionError else Inr (x div b))"

definition py_rfloordiv :: "int \<Rightarrow> pyarg \<Rightarrow> error + int" where
  "py_rfloordiv a b =
     (case b of
        PyIntList _ \<Rightarrow> Inl TypeError
      | PyInt y \<Rightarrow> if y = 0 then Inl ZeroDivisionError else Inr (a div y))"


section \<open>Tensors\<close>

text \<open>
  A tensor is its shape and its elements in row-major order, as both frameworks store
  it. \<open>well_formed\<close> is the invariant that the two agree. \<open>ravel\<close> turns a multi-index into the
  position in the row-major list, \<open>unravel\<close> is its inverse, \<open>elem_at\<close> reads an element and
  \<open>tabulate\<close> builds a tensor from a function of the multi-index.
\<close>

record 'a tensor =
  shape :: "nat list"
  data :: "'a list"

definition well_formed :: "'a tensor \<Rightarrow> bool" where
  "well_formed T \<longleftrightarrow> length (data T) = prod_list (shape T)"

definition rank :: "'a tensor \<Rightarrow> nat" where
  "rank T = length (shape T)"

fun ravel :: "nat list \<Rightarrow> nat list \<Rightarrow> nat" where
  "ravel (d # ds) (i # is) = i * prod_list ds + ravel ds is"
| "ravel _ _ = 0"

fun unravel :: "nat list \<Rightarrow> nat \<Rightarrow> nat list" where
  "unravel [] k = []"
| "unravel (d # ds) k = (k div prod_list ds) # unravel ds (k mod prod_list ds)"

definition valid_index :: "nat list \<Rightarrow> nat list \<Rightarrow> bool" where
  "valid_index sh idx = list_all2 (<) idx sh"

definition elem_at :: "'a tensor \<Rightarrow> nat list \<Rightarrow> 'a" where
  "elem_at T idx = data T ! ravel (shape T) idx"

definition tabulate :: "nat list \<Rightarrow> (nat list \<Rightarrow> 'a) \<Rightarrow> 'a tensor" where
  "tabulate sh f = \<lparr>shape = sh, data = map (\<lambda>k. f (unravel sh k)) [0..<prod_list sh]\<rparr>"


section \<open>Framework operations\<close>

text \<open>
  The tensor operations of TensorFlow and PyTorch that the repository calls, modelled
  from their documented behaviour on shapes and elements. An operation that the
  framework rejects returns \<open>FrameworkError\<close>.
\<close>

subsection \<open>Shapes and axes\<close>

text \<open>A possibly negative axis of a tensor of rank \<open>r\<close>.\<close>

definition norm_axis :: "int \<Rightarrow> nat \<Rightarrow> error + nat" where
  "norm_axis a r =
     (if 0 \<le> a \<and> a < int r then Inr (nat a)
      else if - int r \<le> a \<and> a < 0 then Inr (nat (a + int r))
      else Inl FrameworkError)"

text \<open>
  \<^verbatim>\<open>tf.reshape(T, spec)\<close> and \<^verbatim>\<open>torch.reshape\<close>: the elements stay in row-major order;
  at most one entry of \<open>spec\<close> is \<open>-1\<close> and is inferred from the number of elements.
\<close>

definition tf_reshape :: "'a tensor \<Rightarrow> int list \<Rightarrow> error + 'a tensor" where
  "tf_reshape T spec =
     (let total = prod_list (shape T);
          known = prod_list (map nat (filter (\<lambda>d. d \<noteq> -1) spec))
      in if (\<exists>d \<in> set spec. d < -1) \<or> 1 < length (filter (\<lambda>d. d = -1) spec)
         then Inl FrameworkError
         else if -1 \<in> set spec
         then (if known = 0 \<or> total mod known \<noteq> 0 then Inl FrameworkError
               else Inr \<lparr>shape = map (\<lambda>d. if d = -1 then total div known else nat d) spec,
                        data = data T\<rparr>)
         else (if known \<noteq> total then Inl FrameworkError
               else Inr \<lparr>shape = map nat spec, data = data T\<rparr>))"

text \<open>\<^verbatim>\<open>tf.squeeze(T, axis=a)\<close>: the axis must have size 1.\<close>

definition tf_squeeze :: "'a tensor \<Rightarrow> nat \<Rightarrow> error + 'a tensor" where
  "tf_squeeze T axis =
     (if axis < rank T \<and> shape T ! axis = 1
      then Inr \<lparr>shape = take axis (shape T) @ drop (Suc axis) (shape T), data = data T\<rparr>
      else Inl FrameworkError)"

text \<open>\<^verbatim>\<open>torch.squeeze(T, dim=a)\<close>: an axis of another size is left as it is.\<close>

definition torch_squeeze :: "'a tensor \<Rightarrow> nat \<Rightarrow> error + 'a tensor" where
  "torch_squeeze T dm =
     (if \<not> dm < rank T then Inl FrameworkError
      else if shape T ! dm = 1
      then Inr \<lparr>shape = take dm (shape T) @ drop (Suc dm) (shape T), data = data T\<rparr>
      else Inr T)"

text \<open>
  \<^verbatim>\<open>tf.transpose(T, perm)\<close> and \<^verbatim>\<open>T.permute(*perm)\<close>: axis \<open>i\<close> of the result is axis
  \<open>perm ! i\<close> of \<open>T\<close>.
\<close>

definition index_of :: "nat list \<Rightarrow> nat \<Rightarrow> nat" where
  "index_of perm d = length (takeWhile (\<lambda>a. a \<noteq> d) perm)"

definition tf_transpose :: "'a tensor \<Rightarrow> nat list \<Rightarrow> error + 'a tensor" where
  "tf_transpose T perm =
     (if sort perm = [0..<rank T]
      then Inr (tabulate (map (\<lambda>a. shape T ! a) perm)
                  (\<lambda>idx. elem_at T (map (\<lambda>d. idx ! index_of perm d) [0..<rank T])))
      else Inl FrameworkError)"

definition torch_permute :: "'a tensor \<Rightarrow> nat list \<Rightarrow> error + 'a tensor" where
  "torch_permute T dims = tf_transpose T dims"

text \<open>\<^verbatim>\<open>T.transpose(d0, d1)\<close>: the two axes are swapped.\<close>

definition torch_transpose :: "'a tensor \<Rightarrow> int \<Rightarrow> int \<Rightarrow> error + 'a tensor" where
  "torch_transpose T d0 d1 =
     bind (norm_axis d0 (rank T)) (\<lambda>a.
     bind (norm_axis d1 (rank T)) (\<lambda>b.
     torch_permute T ([0..<rank T][a := b, b := a])))"

text \<open>
  \<^verbatim>\<open>torch.flatten(T, start, end)\<close>: the axes from \<open>start\<close> to \<open>end\<close> become one.
\<close>

definition torch_flatten :: "'a tensor \<Rightarrow> int \<Rightarrow> int \<Rightarrow> error + 'a tensor" where
  "torch_flatten T start_dim end_dim =
     bind (norm_axis start_dim (rank T)) (\<lambda>s.
     bind (norm_axis end_dim (rank T)) (\<lambda>e.
     if e < s then Inl FrameworkError
     else Inr \<lparr>shape = take s (shape T) @ [prod_list (take (Suc e - s) (drop s (shape T)))]
                        @ drop (Suc e) (shape T),
              data = data T\<rparr>))"

subsection \<open>Splitting and joining\<close>

text \<open>\<^verbatim>\<open>tf.split(T, n, axis)\<close>: \<open>n\<close> equal parts along the axis.\<close>

definition tf_split :: "'a tensor \<Rightarrow> nat \<Rightarrow> nat \<Rightarrow> error + 'a tensor list" where
  "tf_split T n axis =
     (if axis < rank T \<and> 0 < n \<and> shape T ! axis mod n = 0
      then let m = shape T ! axis div n
           in Inr (map (\<lambda>t. tabulate ((shape T)[axis := m])
                                (\<lambda>idx. elem_at T (idx[axis := t * m + idx ! axis])))
                       [0..<n])
      else Inl FrameworkError)"

text \<open>\<^verbatim>\<open>tf.stack(Ts, axis)\<close> and \<^verbatim>\<open>torch.stack\<close>: a new axis that counts the tensors.\<close>

definition tf_stack :: "'a tensor list \<Rightarrow> nat \<Rightarrow> error + 'a tensor" where
  "tf_stack Ts axis =
     (case Ts of
        [] \<Rightarrow> Inl FrameworkError
      | T # _ \<Rightarrow>
          if axis \<le> rank T \<and> (\<forall>U \<in> set Ts. shape U = shape T)
          then Inr (tabulate (take axis (shape T) @ [length Ts] @ drop axis (shape T))
                      (\<lambda>idx. elem_at (Ts ! (idx ! axis)) (take axis idx @ drop (Suc axis) idx)))
          else Inl FrameworkError)"

definition torch_stack :: "'a tensor list \<Rightarrow> nat \<Rightarrow> error + 'a tensor" where
  "torch_stack Ts dm = tf_stack Ts dm"

text \<open>
  \<^verbatim>\<open>tf.unstack(T, axis)\<close>: the slices along the axis. Iterating over a PyTorch tensor
  yields its slices along axis 0.
\<close>

definition tf_unstack :: "'a tensor \<Rightarrow> nat \<Rightarrow> error + 'a tensor list" where
  "tf_unstack T axis =
     (if axis < rank T
      then Inr (map (\<lambda>t. tabulate (take axis (shape T) @ drop (Suc axis) (shape T))
                            (\<lambda>idx. elem_at T (take axis idx @ [t] @ drop axis idx)))
                    [0..<shape T ! axis])
      else Inl FrameworkError)"

definition torch_iter :: "'a tensor \<Rightarrow> error + 'a tensor list" where
  "torch_iter T = (if rank T = 0 then Inl TypeError else tf_unstack T 0)"

text \<open>\<^verbatim>\<open>T[i]\<close>: slice \<open>i\<close> along axis 0.\<close>

definition select0 :: "'a tensor \<Rightarrow> nat \<Rightarrow> error + 'a tensor" where
  "select0 T i =
     (if 0 < rank T \<and> i < shape T ! 0
      then Inr (tabulate (tl (shape T)) (\<lambda>idx. elem_at T (i # idx)))
      else Inl IndexError)"

text \<open>
  \<^verbatim>\<open>tf.concat(Ts, axis)\<close>: the tensors agree on every other axis;
  \<open>locate\<close> finds the tensor and the offset inside it that an index along the joined
  axis falls into.
\<close>

fun locate :: "nat list \<Rightarrow> nat \<Rightarrow> nat \<times> nat" where
  "locate [] i = (0, i)"
| "locate (d # ds) i =
     (if i < d then (0, i) else (case locate ds (i - d) of (t, off) \<Rightarrow> (Suc t, off)))"

definition tf_concat :: "'a tensor list \<Rightarrow> int \<Rightarrow> error + 'a tensor" where
  "tf_concat Ts axis =
     (case Ts of
        [] \<Rightarrow> Inl FrameworkError
      | T # _ \<Rightarrow>
          (case norm_axis axis (rank T) of
             Inl e \<Rightarrow> Inl e
           | Inr ax \<Rightarrow>
               if (\<forall>U \<in> set Ts. (shape U)[ax := 0] = (shape T)[ax := 0])
               then Inr (tabulate ((shape T)[ax := sum_list (map (\<lambda>U. shape U ! ax) Ts)])
                           (\<lambda>idx. case locate (map (\<lambda>U. shape U ! ax) Ts) (idx ! ax) of
                                     (t, off) \<Rightarrow> elem_at (Ts ! t) (idx[ax := off])))
               else Inl FrameworkError))"

text \<open>
  \<^verbatim>\<open>tf.map_fn(fn, elems)\<close>: \<open>fn\<close> on every slice along axis 0, results stacked. (For
  \<open>elems\<close> with no slice TensorFlow returns an empty tensor whose shape it takes from
  tracing \<open>fn\<close>; here that case is rejected, and the theorems below are about non-empty
  batches.)
\<close>

definition tf_map_fn :: "('a tensor \<Rightarrow> error + 'b tensor) \<Rightarrow> 'a tensor \<Rightarrow> error + 'b tensor" where
  "tf_map_fn fn elems =
     bind (tf_unstack elems 0) (\<lambda>xs. bind (traverse fn xs) (\<lambda>ys. tf_stack ys 0))"

subsection \<open>Windows\<close>

text \<open>
  The number of windows of size \<open>k\<close> at stride \<open>s\<close> that fit into \<open>n\<close> positions
  (\<^verbatim>\<open>VALID\<close> padding; \<^verbatim>\<open>Tensor.unfold\<close>).
\<close>

definition out_size :: "nat \<Rightarrow> nat \<Rightarrow> nat \<Rightarrow> nat" where
  "out_size n k s = (if n < k then 0 else (n - k) div s + 1)"

text \<open>
  \<^verbatim>\<open>tf.image.extract_patches(images, sizes=[1,k,k,1], strides=[1,s,s,1],
  rates=[1,1,1,1], padding='VALID')\<close>: for every window position the \<open>k \<times> k \<times> c\<close>
  window, flattened in the order row, column, channel, on the last axis.
\<close>

definition tf_image_extract_patches :: "'a tensor \<Rightarrow> nat \<Rightarrow> nat \<Rightarrow> error + 'a tensor" where
  "tf_image_extract_patches images k s =
     (case shape images of
        [b, h, w, c] \<Rightarrow>
          if k = 0 \<or> s = 0 then Inl FrameworkError
          else Inr \<lparr>shape = [b, out_size h k s, out_size w k s, k * k * c],
                   data = data (tabulate [b, out_size h k s, out_size w k s, k, k, c]
                            (\<lambda>idx. elem_at images [idx ! 0, idx ! 1 * s + idx ! 3,
                                               idx ! 2 * s + idx ! 4, idx ! 5]))\<rparr>
      | _ \<Rightarrow> Inl FrameworkError)"

text \<open>
  \<^verbatim>\<open>T.unfold(dim, size, step)\<close>: the axis \<open>dm\<close> counts the windows and a new last axis
  runs inside the window.
\<close>

definition torch_unfold :: "'a tensor \<Rightarrow> nat \<Rightarrow> nat \<Rightarrow> nat \<Rightarrow> error + 'a tensor" where
  "torch_unfold T dm sz step =
     (if dm < rank T \<and> 0 < step \<and> sz \<le> shape T ! dm
      then Inr (tabulate ((shape T)[dm := out_size (shape T ! dm) sz step] @ [sz])
                  (\<lambda>idx. elem_at T ((butlast idx)[dm := idx ! dm * step + last idx])))
      else Inl FrameworkError)"

subsection \<open>Arithmetic\<close>

text \<open>\<^verbatim>\<open>A + B\<close> with broadcasting: shapes are aligned at the last axis, and an axis of
  size 1 (or a missing one) is repeated.\<close>

fun broadcast_rev :: "nat list \<Rightarrow> nat list \<Rightarrow> nat list option" where
  "broadcast_rev [] ys = Some ys"
| "broadcast_rev (x # xs) [] = Some (x # xs)"
| "broadcast_rev (x # xs) (y # ys) =
     (if x = y \<or> y = 1 then map_option ((#) x) (broadcast_rev xs ys)
      else if x = 1 then map_option ((#) y) (broadcast_rev xs ys)
      else None)"

definition broadcast_shape :: "nat list \<Rightarrow> nat list \<Rightarrow> nat list option" where
  "broadcast_shape a b = map_option rev (broadcast_rev (rev a) (rev b))"

definition project_index :: "nat list \<Rightarrow> nat list \<Rightarrow> nat list" where
  "project_index sh idx =
     map2 (\<lambda>d i. if d = 1 then 0 else i) sh (drop (length idx - length sh) idx)"

definition tensor_add :: "'a::plus tensor \<Rightarrow> 'a tensor \<Rightarrow> error + 'a tensor" where
  "tensor_add A B =
     (case broadcast_shape (shape A) (shape B) of
        None \<Rightarrow> Inl FrameworkError
      | Some sh \<Rightarrow>
          Inr (tabulate sh (\<lambda>idx. elem_at A (project_index (shape A) idx)
                                 + elem_at B (project_index (shape B) idx))))"

text \<open>\<^verbatim>\<open>T * s\<close> for a scalar \<open>s\<close>.\<close>

definition tensor_scale :: "'a::times tensor \<Rightarrow> 'a \<Rightarrow> 'a tensor" where
  "tensor_scale T s = \<lparr>shape = shape T, data = map (\<lambda>v. v * s) (data T)\<rparr>"

text \<open>
  \<^verbatim>\<open>matmul(A, B)\<close> on the last two axes, for tensors with the same leading axes (the
  source multiplies only such tensors).
\<close>

definition matmul :: "'a::semiring_0 tensor \<Rightarrow> 'a tensor \<Rightarrow> error + 'a tensor" where
  "matmul A B =
     (if rank A < 2 \<or> rank B \<noteq> rank A
         \<or> take (rank A - 2) (shape A) \<noteq> take (rank A - 2) (shape B)
         \<or> last (shape A) \<noteq> shape B ! (rank A - 2)
      then Inl FrameworkError
      else Inr (tabulate (butlast (shape A) @ [last (shape B)])
                  (\<lambda>idx. sum_list (map (\<lambda>k. elem_at A (butlast idx @ [k])
                                              * elem_at B (take (rank A - 2) idx @ [k, last idx]))
                                        [0..<last (shape A)]))))"

text \<open>\<^verbatim>\<open>tf.linalg.matmul(A, B, transpose_b=True)\<close>.\<close>

definition tf_matmul_transpose_b :: "'a::semiring_0 tensor \<Rightarrow> 'a tensor \<Rightarrow> error + 'a tensor" where
  "tf_matmul_transpose_b A B =
     (if rank B < 2 then Inl FrameworkError
      else bind (tf_transpose B ([0..<rank B][rank B - 2 := rank B - 1, rank B - 1 := rank B - 2]))
             (\<lambda>Bt. matmul A Bt))"

text \<open>Softmax along the last axis, over the reals.\<close>

definition softmax :: "real tensor \<Rightarrow> error + real tensor" where
  "softmax T =
     (if rank T = 0 then Inl FrameworkError
      else Inr (tabulate (shape T)
                  (\<lambda>idx. exp (elem_at T idx)
                          / sum_list (map (\<lambda>k. exp (elem_at T (butlast idx @ [k])))
                                          [0..<last (shape T)]))))"

text \<open>\<^verbatim>\<open>tf.range(start=0, limit=n, delta=1)\<close> and \<^verbatim>\<open>torch.arange(0, n, 1)\<close>.\<close>

definition tf_range :: "nat \<Rightarrow> nat tensor" where
  "tf_range n = \<lparr>shape = [n], data = [0..<n]\<rparr>"

subsection \<open>Layers with weights\<close>

text \<open>
  A Keras \<^verbatim>\<open>Dense(units)\<close> layer builds its kernel at the first call, for the size of
  the last input axis it then sees; the weights are given as functions of their
  indices, so that they exist for whatever input size the call brings. A PyTorch
  \<^verbatim>\<open>Linear(in_features, out_features)\<close> fixes the input size at construction.
\<close>

record 'a Dense =
  dense_units :: nat
  dense_kernel :: "nat \<Rightarrow> nat \<Rightarrow> 'a"
  dense_bias :: "nat \<Rightarrow> 'a"

definition Dense_call :: "'a::semiring_0 Dense \<Rightarrow> 'a tensor \<Rightarrow> error + 'a tensor" where
  "Dense_call L x =
     (if rank x < 2 then Inl FrameworkError
      else Inr (tabulate (butlast (shape x) @ [dense_units L])
                  (\<lambda>idx. sum_list (map (\<lambda>k. elem_at x (butlast idx @ [k]) * dense_kernel L k (last idx))
                                        [0..<last (shape x)])
                          + dense_bias L (last idx))))"

record 'a Linear =
  in_features :: nat
  out_features :: nat
  linear_weight :: "nat \<Rightarrow> nat \<Rightarrow> 'a"
  linear_bias :: "nat \<Rightarrow> 'a"

text \<open>An embedding table, looked up at a tensor of row numbers.\<close>

record 'a Embedding =
  emb_input_dim :: nat
  emb_output_dim :: nat
  emb_table :: "nat \<Rightarrow> nat \<Rightarrow> 'a"

definition Embedding_call :: "'a Embedding \<Rightarrow> nat tensor \<Rightarrow> error + 'a tensor" where
  "Embedding_call E ids =
     (if \<exists>i \<in> set (data ids). emb_input_dim E \<le> i then Inl FrameworkError
      else Inr (tabulate (shape ids @ [emb_output_dim E])
                  (\<lambda>idx. emb_table E (elem_at ids (butlast idx)) (last idx))))"


section \<open>\<^verbatim>\<open>src/hvit/tf/functions.py\<close>\<close>

subsection \<open>Patches and their inverse\<close>

text \<open>
  \<^verbatim>\<open>patches\<close> (lines 6 to 15): the number of patches comes from axis 1 of the image,
  the windows from \<^verbatim>\<open>tf.image.extract_patches\<close> with \<^verbatim>\<open>VALID\<close> padding. There is no
  \<^verbatim>\<open>assert\<close> in this function.
\<close>

definition hvit_patches :: "'a tensor \<Rightarrow> nat \<Rightarrow> error + 'a tensor" where
  "hvit_patches X patch_size =
     bind (py_index (shape X) 1) (\<lambda>s.
     bind (floordiv s patch_size) (\<lambda>q.
     let num_patches = q ^ 2
     in bind (tf_image_extract_patches X patch_size patch_size) (\<lambda>X'.
        tf_reshape X' [-1, int num_patches, int (last (shape X'))])))"

text \<open>\<^verbatim>\<open>unflatten\<close> (lines 17 to 23).\<close>

definition hvit_unflatten :: "'a tensor \<Rightarrow> nat \<Rightarrow> error + 'a tensor" where
  "hvit_unflatten flattened num_channels =
     bind (if rank flattened = 2 then Inr (shape flattened ! 0, shape flattened ! 1)
           else if rank flattened = 3 then Inr (shape flattened ! 1, shape flattened ! 2)
           else Inl ValueError)
       (\<lambda>(n, p).
          bind (floordiv p num_channels) (\<lambda>q.
          tf_reshape flattened [-1, int n, int (isqrt q), int (isqrt q), int num_channels]))"

text \<open>Unpacking a shape of rank 5 into five names.\<close>

definition unpack5 :: "nat list \<Rightarrow> error + (nat \<times> nat \<times> nat \<times> nat \<times> nat)" where
  "unpack5 sh = (case sh of [a, b, c, d, e] \<Rightarrow> Inr (a, b, c, d, e) | _ \<Rightarrow> Inl ValueError)"

text \<open>
  \<^verbatim>\<open>unpatch\<close> (lines 25 to 35). When \<open>x\<close> has rank below 5 the sizes are read from
  \<^verbatim>\<open>unflatten(x, num_channels)\<close>, and the operations that follow still work on \<open>x\<close>
  itself, as in the source.
\<close>

definition msg_channels :: string where
  "msg_channels = ''Num. channels must agree''"

definition hvit_unpatch :: "'a tensor \<Rightarrow> nat \<Rightarrow> error + 'a tensor" where
  "hvit_unpatch x num_channels =
     bind (if rank x < 5 then bind (hvit_unflatten x num_channels) (\<lambda>u. unpack5 (shape u))
           else unpack5 (shape x))
       (\<lambda>(_, num_patches, h, w, ch).
          if ch \<noteq> num_channels then Inl (AssertionError msg_channels)
          else let elem_per_axis = isqrt num_patches
               in bind (tf_split x elem_per_axis 1) (\<lambda>parts.
                  bind (tf_stack parts 1) (\<lambda>x.
                  bind (tf_unstack x 2) (\<lambda>cols.
                  bind (tf_concat cols (-2)) (\<lambda>patches_middle.
                  bind (tf_unstack patches_middle 1) (\<lambda>rows.
                  bind (tf_concat rows (-3)) (\<lambda>restored.
                  tf_reshape restored
                    [-1, 1, int (h * elem_per_axis), int (w * elem_per_axis), int ch])))))))"

subsection \<open>\<^verbatim>\<open>Resampling.__init__\<close>\<close>

text \<open>
  Lines 87 to 126. The Keras layers are recorded with their hyperparameters;
  \<open>keras\<close> tells which hyperparameters the installed Keras accepts, and a rejected
  layer raises. \<^verbatim>\<open>projection_dim\<close> is \<open>None\<close> or a size.
\<close>

datatype keras_layer =
    KMaxPool2D nat nat string
  | KConv2D nat nat nat string
  | KDense nat
  | KEmbedding nat nat

definition keras_new :: "(keras_layer \<Rightarrow> bool) \<Rightarrow> keras_layer \<Rightarrow> error + keras_layer" where
  "keras_new keras l = (if keras l then Inr l else Inl FrameworkError)"

record hvit_Resampling =
  rs_img_size :: nat
  rs_patch_size :: "nat list"
  rs_num_patches :: "nat list"
  rs_pool_size :: nat
  rs_num_channels :: nat
  rs_resampling_type :: string
  rs_projection_dim :: "nat list"
  rs_ps :: "nat list option"
  rs_pool :: "keras_layer option"
  rs_linear :: keras_layer
  rs_positions :: "nat tensor"
  rs_position_embedding :: keras_layer

definition msg_resampling_type :: string where
  "msg_resampling_type = ''Resampling type must be either 'max' or 'standard'.''"

definition msg_max_projection :: string where
  "msg_max_projection = ''Projection_dim must be specified when performing 'max' pooling type.''"

definition msg_conv_square :: string where
  "msg_conv_square =
     ''If provided, projection dim has to be a perfect square (per channel) with resampling_type=='conv'.''"

definition hvit_Resampling_init ::
  "(keras_layer \<Rightarrow> bool) \<Rightarrow> nat \<Rightarrow> nat list \<Rightarrow> nat \<Rightarrow> nat option \<Rightarrow> string \<Rightarrow> error + hvit_Resampling" where
  "hvit_Resampling_init keras img_size patch_size num_channels projection_dim resampling_type =
     (if resampling_type \<notin> set [''max'', ''standard'', ''conv'']
      then Inl (AssertionError msg_resampling_type)
      else
        bind (traverse (\<lambda>patch. bind (floordiv img_size patch) (\<lambda>q. Inr (q ^ 2))) patch_size)
          (\<lambda>num_patches.
        bind (py_index num_patches 0) (\<lambda>n0.
        bind (py_index num_patches 1) (\<lambda>n1.
        bind (floordiv n0 n1) (\<lambda>pool_size.
        let self = \<lparr>rs_img_size = img_size, rs_patch_size = patch_size,
                    rs_num_patches = num_patches, rs_pool_size = pool_size,
                    rs_num_channels = num_channels, rs_resampling_type = resampling_type,
                    rs_projection_dim = [], rs_ps = None, rs_pool = None,
                    rs_linear = KDense 0, rs_positions = tf_range 0,
                    rs_position_embedding = KEmbedding 0 0\<rparr>
        in
        if resampling_type = ''max'' then
          (case projection_dim of
             None \<Rightarrow> Inl (AssertionError msg_max_projection)
           | Some d \<Rightarrow>
               let pd = map (\<lambda>patch. d) patch_size
               in bind (traverse (\<lambda>proj. bind (floordiv proj num_channels) (\<lambda>q. Inr (isqrt q))) pd)
                    (\<lambda>ps.
                  bind (keras_new keras
                          (KMaxPool2D (num_channels * last num_patches) (pool_size div 2) ''same''))
                    (\<lambda>maxpool.
                  bind (keras_new keras (KDense (last pd))) (\<lambda>linear.
                  bind (keras_new keras (KEmbedding (last num_patches) (last pd))) (\<lambda>emb.
                  Inr (self\<lparr>rs_projection_dim := pd, rs_ps := Some ps, rs_pool := Some maxpool,
                            rs_linear := linear, rs_positions := tf_range (last num_patches),
                            rs_position_embedding := emb\<rparr>))))))
        else if resampling_type = ''standard'' then
          (let pd = map (\<lambda>patch. case projection_dim of Some d \<Rightarrow> d
                                   | None \<Rightarrow> num_channels * patch ^ 2) patch_size
           in bind (keras_new keras (KEmbedding (last num_patches) (last pd))) (\<lambda>emb.
              bind (keras_new keras (KDense (last pd))) (\<lambda>linear.
              Inr (self\<lparr>rs_projection_dim := pd, rs_linear := linear,
                        rs_positions := tf_range (last num_patches),
                        rs_position_embedding := emb\<rparr>))))
        else
          bind (case projection_dim of
                  None \<Rightarrow> Inr True
                | Some d \<Rightarrow> bind (floordiv d num_channels) (\<lambda>q. Inr (sqrt_is_whole q)))
            (\<lambda>ok.
          if \<not> ok then Inl (AssertionError msg_conv_square)
          else
            let pd = map (\<lambda>patch. case projection_dim of Some d \<Rightarrow> d
                                    | None \<Rightarrow> num_channels * patch ^ 2) patch_size
            in bind (traverse (\<lambda>proj. bind (floordiv proj num_channels) (\<lambda>q. Inr (isqrt q))) pd)
                 (\<lambda>ps.
               bind (keras_new keras
                       (KConv2D (num_channels * last num_patches) (pool_size div 2)
                          (pool_size div 2) ''same''))
                 (\<lambda>conv.
               bind (keras_new keras (KDense (last pd))) (\<lambda>linear.
               bind (keras_new keras (KEmbedding (last num_patches) (last pd))) (\<lambda>emb.
               Inr (self\<lparr>rs_projection_dim := pd, rs_ps := Some ps, rs_pool := Some conv,
                         rs_linear := linear, rs_positions := tf_range (last num_patches),
                         rs_position_embedding := emb\<rparr>)))))))))))"

subsection \<open>\<^verbatim>\<open>PatchEncoder\<close>\<close>

text \<open>
  Lines 155 to 190. The initial weights of the two layers are arguments of the
  constructor of the model.
\<close>

record 'a hvit_PatchEncoder =
  pe_img_size :: nat
  pe_patch_size :: nat
  pe_num_channels :: nat
  pe_num_patches :: nat
  pe_projection_dim :: nat
  pe_projection :: "'a Dense"
  pe_position_embedding :: "'a Embedding"

definition hvit_PatchEncoder_init ::
  "nat \<Rightarrow> nat \<Rightarrow> nat \<Rightarrow> nat option \<Rightarrow> (nat \<Rightarrow> nat \<Rightarrow> 'a) \<Rightarrow> (nat \<Rightarrow> 'a) \<Rightarrow> (nat \<Rightarrow> nat \<Rightarrow> 'a)
     \<Rightarrow> error + 'a hvit_PatchEncoder" where
  "hvit_PatchEncoder_init img_size patch_size num_channels projection_dim kern bias table =
     bind (floordiv img_size patch_size) (\<lambda>q.
     let num_patches = q ^ 2;
         pd = (case projection_dim of Some d \<Rightarrow> d | None \<Rightarrow> num_channels * patch_size ^ 2)
     in Inr \<lparr>pe_img_size = img_size, pe_patch_size = patch_size,
             pe_num_channels = num_channels, pe_num_patches = num_patches,
             pe_projection_dim = pd,
             pe_projection = \<lparr>dense_units = pd, dense_kernel = kern, dense_bias = bias\<rparr>,
             pe_position_embedding =
               \<lparr>emb_input_dim = num_patches, emb_output_dim = pd, emb_table = table\<rparr>\<rparr>)"

definition hvit_PatchEncoder_call ::
  "'a::semiring_0 hvit_PatchEncoder \<Rightarrow> 'a tensor \<Rightarrow> error + 'a tensor" where
  "hvit_PatchEncoder_call self X =
     bind (hvit_patches X (pe_patch_size self)) (\<lambda>X.
     let positions = tf_range (pe_num_patches self)
     in bind (Dense_call (pe_projection self) X) (\<lambda>projected.
        bind (Embedding_call (pe_position_embedding self) positions) (\<lambda>embedded.
        tensor_add projected embedded)))"

subsection \<open>\<^verbatim>\<open>ReAttention\<close>\<close>

text \<open>
  Lines 225 to 294. The object as the constructor leaves it: the convolutions, the
  batch normalisation, the dropouts and the projection are learned or random layers
  and enter as functions on tensors; \<open>gelu\<close> is the activation.
\<close>

record hvit_ReAttention =
  ra_dim :: nat
  ra_num_heads :: nat
  ra_num_channels :: nat
  ra_num_patches :: nat
  ra_apply_transform :: bool
  ra_scale :: real
  ra_reatten_scale :: real
  ra_reatten_matrix :: "real tensor \<Rightarrow> error + real tensor"
  ra_var_norm :: "real tensor \<Rightarrow> error + real tensor"
  ra_qconv2d :: "real tensor \<Rightarrow> error + real tensor"
  ra_kconv2d :: "real tensor \<Rightarrow> error + real tensor"
  ra_vconv2d :: "real tensor \<Rightarrow> error + real tensor"
  ra_attn_drop :: "real tensor \<Rightarrow> error + real tensor"
  ra_proj :: "real tensor \<Rightarrow> error + real tensor"
  ra_proj_drop :: "real tensor \<Rightarrow> error + real tensor"

definition hvit_create_queries ::
  "(real tensor \<Rightarrow> real tensor) \<Rightarrow> hvit_ReAttention \<Rightarrow> real tensor \<Rightarrow> string \<Rightarrow> error + real tensor" where
  "hvit_create_queries gelu self x letter =
     bind (if letter = ''q''
           then bind (hvit_unflatten x (ra_num_channels self)) (\<lambda>x.
                tf_map_fn (\<lambda>y. bind (ra_qconv2d self y) (\<lambda>z. Inr (gelu z))) x)
           else Inr x) (\<lambda>x.
     bind (if letter = ''k''
           then bind (hvit_unflatten x (ra_num_channels self)) (\<lambda>x.
                tf_map_fn (\<lambda>y. bind (ra_kconv2d self y) (\<lambda>z. Inr (gelu z))) x)
           else Inr x) (\<lambda>x.
     bind (if letter = ''v''
           then bind (hvit_unflatten x (ra_num_channels self)) (\<lambda>x.
                tf_map_fn (\<lambda>y. bind (ra_vconv2d self y) (\<lambda>z. Inr (gelu z))) x)
           else Inr x) (\<lambda>x.
     bind (tf_reshape x [-1, int (ra_num_patches self), int (ra_dim self)]) (\<lambda>x.
     bind (floordiv (ra_dim self) (ra_num_heads self)) (\<lambda>head_dim.
     bind (tf_reshape x [-1, int (ra_num_patches self), int (ra_num_heads self), int head_dim, 1])
       (\<lambda>x.
     bind (tf_transpose x [4, 0, 2, 1, 3]) (\<lambda>x.
     select0 x 0)))))))"

definition hvit_ReAttention_call ::
  "(real tensor \<Rightarrow> real tensor) \<Rightarrow> hvit_ReAttention \<Rightarrow> real tensor
     \<Rightarrow> error + (real tensor \<times> real tensor)" where
  "hvit_ReAttention_call gelu self x =
     (case shape x of
        [_, N, C] \<Rightarrow>
          bind (hvit_create_queries gelu self x ''q'') (\<lambda>q.
          bind (hvit_create_queries gelu self x ''k'') (\<lambda>k.
          bind (hvit_create_queries gelu self x ''v'') (\<lambda>v.
          bind (tf_matmul_transpose_b q k) (\<lambda>qk.
          let attn = tensor_scale qk (ra_scale self)
          in bind (softmax attn) (\<lambda>attn.
             bind (ra_attn_drop self attn) (\<lambda>attn.
             bind (if ra_apply_transform self
                   then bind (ra_reatten_matrix self attn) (\<lambda>m.
                        bind (ra_var_norm self m) (\<lambda>bn.
                        Inr (tensor_scale bn (ra_reatten_scale self))))
                   else Inr attn) (\<lambda>attn.
             let attn_next = attn
             in bind (matmul attn v) (\<lambda>av.
                bind (tf_transpose av [0, 2, 1, 3]) (\<lambda>t.
                bind (tf_reshape t [-1, int N, int C]) (\<lambda>x.
                bind (ra_proj self x) (\<lambda>x.
                bind (ra_proj_drop self x) (\<lambda>x.
                Inr (x, attn_next)))))))))))))
      | _ \<Rightarrow> Inl ValueError)"


section \<open>\<^verbatim>\<open>src/model/tf/functions.py\<close> and \<^verbatim>\<open>src/model/tf/ViT_model.py\<close>\<close>

text \<open>
  \<^verbatim>\<open>patches\<close> of \<^verbatim>\<open>functions.py\<close> (lines 6 to 27) and \<^verbatim>\<open>patch\<close> of \<^verbatim>\<open>ViT_model.py\<close>
  (lines 6 to 27) have the same text. The inner function \<^verbatim>\<open>patches_2d\<close> closes over
  \<^verbatim>\<open>patch_size\<close>.
\<close>

definition msg_height :: string where
  "msg_height = ''Patch size must divide images height''"

definition msg_width :: string where
  "msg_width = ''Patch size must divide images width''"

definition patches_2d :: "nat \<Rightarrow> 'a tensor \<Rightarrow> error + 'a tensor" where
  "patches_2d patch_size X =
     (case shape X of
        [h, w] \<Rightarrow>
          bind (floordiv h patch_size) (\<lambda>nh.
          bind (tf_split X nh 0) (\<lambda>parts.
          bind (tf_stack parts 0) (\<lambda>X_middle.
          bind (tf_map_fn (\<lambda>y. bind (floordiv w patch_size) (\<lambda>nw.
                                bind (tf_split y nw 1) (\<lambda>ps. tf_stack ps 0))) X_middle)
            (\<lambda>X_final.
          tf_reshape X_final [-1, int patch_size, int patch_size]))))
      | _ \<Rightarrow> Inl ValueError)"

definition tf_patch :: "'a tensor \<Rightarrow> nat \<Rightarrow> error + 'a tensor" where
  "tf_patch X patch_size =
     bind (if rank X = 5 then tf_squeeze X 1 else Inr X) (\<lambda>X.
     (case shape X of
        [_, h, w, _] \<Rightarrow>
          if patch_size = 0 then Inl ZeroDivisionError
          else if h mod patch_size \<noteq> 0 then Inl (AssertionError msg_height)
          else if w mod patch_size \<noteq> 0 then Inl (AssertionError msg_width)
          else bind (tf_transpose X [0, 3, 1, 2]) (\<lambda>X.
               bind (tf_map_fn (\<lambda>y. tf_map_fn (\<lambda>z. patches_2d patch_size z) y) X)
                 (\<lambda>patches_tf.
               tf_transpose patches_tf [0, 2, 3, 4, 1]))
      | _ \<Rightarrow> Inl ValueError))"

text \<open>\<^verbatim>\<open>PatchEncoder\<close> of \<^verbatim>\<open>functions.py\<close>, lines 98 to 119.\<close>

record 'a tfm_PatchEncoder =
  tpe_img_size :: nat
  tpe_patch_size :: nat
  tpe_num_channels :: nat
  tpe_num_patches :: nat
  tpe_projection_dim :: nat
  tpe_projection :: "'a Dense"
  tpe_position_embedding :: "'a Embedding"

definition tfm_PatchEncoder_init ::
  "nat \<Rightarrow> nat \<Rightarrow> nat \<Rightarrow> (nat \<Rightarrow> nat \<Rightarrow> 'a) \<Rightarrow> (nat \<Rightarrow> 'a) \<Rightarrow> (nat \<Rightarrow> nat \<Rightarrow> 'a)
     \<Rightarrow> error + 'a tfm_PatchEncoder" where
  "tfm_PatchEncoder_init img_size patch_size num_channels kern bias table =
     bind (floordiv img_size patch_size) (\<lambda>q.
     let num_patches = q ^ 2;
         pd = num_channels * patch_size ^ 2
     in Inr \<lparr>tpe_img_size = img_size, tpe_patch_size = patch_size,
             tpe_num_channels = num_channels, tpe_num_patches = num_patches,
             tpe_projection_dim = pd,
             tpe_projection = \<lparr>dense_units = pd, dense_kernel = kern, dense_bias = bias\<rparr>,
             tpe_position_embedding =
               \<lparr>emb_input_dim = num_patches, emb_output_dim = pd, emb_table = table\<rparr>\<rparr>)"

definition tfm_PatchEncoder_call ::
  "'a::semiring_0 tfm_PatchEncoder \<Rightarrow> 'a tensor \<Rightarrow> error + 'a tensor" where
  "tfm_PatchEncoder_call self X =
     bind (tf_patch X (tpe_patch_size self)) (\<lambda>X.
     let positions = tf_range (tpe_num_patches self)
     in bind (Dense_call (tpe_projection self) X) (\<lambda>projected.
        bind (Embedding_call (tpe_position_embedding self) positions) (\<lambda>embedded.
        tensor_add projected embedded)))"


section \<open>\<^verbatim>\<open>src/model/pytorch/ViT_model.py\<close>\<close>

subsection \<open>Patches and their inverse\<close>

text \<open>\<^verbatim>\<open>patch\<close> (lines 8 to 18), on channels-first images.\<close>

definition pt_patch :: "'a tensor \<Rightarrow> nat \<Rightarrow> error + 'a tensor" where
  "pt_patch X patch_size =
     bind (if rank X = 5 then torch_squeeze X 1 else Inr X) (\<lambda>X.
     if rank X < 2 then Inl IndexError
     else
       let h = shape X ! (rank X - 2); w = shape X ! (rank X - 1)
       in if patch_size = 0 then Inl ZeroDivisionError
          else if h mod patch_size \<noteq> 0 then Inl (AssertionError msg_height)
          else if w mod patch_size \<noteq> 0 then Inl (AssertionError msg_width)
          else bind (torch_unfold X 2 patch_size patch_size) (\<lambda>u.
               bind (torch_unfold u 3 patch_size patch_size) (\<lambda>patches.
               bind (torch_flatten patches 2 3) (\<lambda>f.
               torch_permute f [0, 2, 1, 3, 4]))))"

text \<open>\<^verbatim>\<open>unflatten\<close> (lines 20 to 24).\<close>

definition pt_unflatten :: "'a tensor \<Rightarrow> nat \<Rightarrow> error + 'a tensor" where
  "pt_unflatten flattened num_channels =
     (case shape flattened of
        [bs, n, p] \<Rightarrow>
          bind (floordiv p num_channels) (\<lambda>q.
          tf_reshape flattened
            [int bs, int n, int num_channels, int (isqrt q), int (isqrt q)])
      | _ \<Rightarrow> Inl ValueError)"

subsection \<open>\<^verbatim>\<open>PatchEncoder\<close>\<close>

text \<open>
  The constructor, lines 50 to 82. \<open>device_ok\<close> tells which device names the installed PyTorch can
  allocate on. The constructor reads \<^verbatim>\<open>self.num_patches_final\<close> while it evaluates the
  arguments of \<^verbatim>\<open>torch.nn.Embedding\<close>; no statement of the class assigns that
  attribute, and \<^verbatim>\<open>torch.nn.Module\<close> raises \<^verbatim>\<open>AttributeError\<close> for it.
\<close>

record 'a pt_PatchEncoder =
  ppe_img_size :: nat
  ppe_patch_size :: "nat list"
  ppe_num_channels :: nat
  ppe_num_patches :: "nat list"
  ppe_projection_dim :: "nat list"
  ppe_device :: string
  ppe_positions :: "nat tensor"
  ppe_linear :: "'a Linear"
  ppe_position_embedding :: "'a Embedding"

definition torch_arange :: "(string \<Rightarrow> bool) \<Rightarrow> nat \<Rightarrow> string \<Rightarrow> error + nat tensor" where
  "torch_arange device_ok n device =
     (if device_ok device then Inr (tf_range n) else Inl FrameworkError)"

definition pt_PatchEncoder_init ::
  "(string \<Rightarrow> bool) \<Rightarrow> nat \<Rightarrow> nat list \<Rightarrow> nat \<Rightarrow> string \<Rightarrow> (nat \<Rightarrow> nat \<Rightarrow> 'a) \<Rightarrow> (nat \<Rightarrow> 'a)
     \<Rightarrow> error + 'a pt_PatchEncoder" where
  "pt_PatchEncoder_init device_ok img_size patch_size num_channels device weight bias =
     bind (traverse (\<lambda>patch. bind (floordiv img_size patch) (\<lambda>q. Inr (q ^ 2))) patch_size)
       (\<lambda>num_patches.
     let projection_dim = map (\<lambda>patch. num_channels * patch ^ 2) patch_size
     in bind (py_index patch_size 0) (\<lambda>p0.
        bind (py_index patch_size 1) (\<lambda>p1.
        bind (if p0 > p1
              then bind (py_index num_patches 1) (\<lambda>n. torch_arange device_ok n device)
              else bind (py_index num_patches 0) (\<lambda>n. torch_arange device_ok n device))
          (\<lambda>positions.
        bind (py_index projection_dim 0) (\<lambda>d.
        let linear = \<lparr>in_features = d, out_features = d,
                      linear_weight = weight, linear_bias = bias\<rparr>
        in Inl (AttributeError ''num_patches_final''))))))"

subsection \<open>\<^verbatim>\<open>ReAttention.forward\<close>\<close>

text \<open>
  Lines 118 to 169. The layers enter as functions on tensors, as above. The local
  variable \<^verbatim>\<open>attn_norm\<close> is bound only inside the \<^verbatim>\<open>if\<close>; it is modelled as an option,
  and reading it unbound raises \<^verbatim>\<open>UnboundLocalError\<close>.
\<close>

record pt_ReAttention =
  pra_num_heads :: nat
  pra_num_channels :: nat
  pra_apply_transform :: bool
  pra_scale :: real
  pra_reatten_scale :: real
  pra_reatten_matrix :: "real tensor \<Rightarrow> error + real tensor"
  pra_var_norm :: "real tensor \<Rightarrow> error + real tensor"
  pra_qconv2d :: "real tensor \<Rightarrow> error + real tensor"
  pra_kconv2d :: "real tensor \<Rightarrow> error + real tensor"
  pra_vconv2d :: "real tensor \<Rightarrow> error + real tensor"
  pra_attn_drop :: "real tensor \<Rightarrow> error + real tensor"
  pra_proj :: "real tensor \<Rightarrow> error + real tensor"
  pra_proj_drop :: "real tensor \<Rightarrow> error + real tensor"

text \<open>The expression that computes each of \<^verbatim>\<open>q\<close>, \<^verbatim>\<open>k\<close> and \<^verbatim>\<open>v\<close>, for its convolution.\<close>

definition pt_qkv ::
  "pt_ReAttention \<Rightarrow> (real tensor \<Rightarrow> error + real tensor) \<Rightarrow> real tensor \<Rightarrow> nat \<Rightarrow> nat \<Rightarrow> nat
     \<Rightarrow> error + real tensor" where
  "pt_qkv self conv2d x B N C =
     bind (pt_unflatten x (pra_num_channels self)) (\<lambda>u.
     bind (torch_iter u) (\<lambda>ys.
     bind (traverse conv2d ys) (\<lambda>zs.
     bind (torch_stack zs 0) (\<lambda>s.
     bind (torch_flatten s (-3) (-1)) (\<lambda>f.
     bind (floordiv C (pra_num_heads self)) (\<lambda>head_dim.
     bind (tf_reshape f [int B, int N, 1, int (pra_num_heads self), int head_dim]) (\<lambda>r.
     bind (torch_permute r [2, 0, 3, 1, 4]) (\<lambda>p.
     select0 p 0))))))))"

definition pt_ReAttention_forward ::
  "pt_ReAttention \<Rightarrow> real tensor \<Rightarrow> error + (real tensor \<times> real tensor)" where
  "pt_ReAttention_forward self x =
     (case shape x of
        [B, N, C] \<Rightarrow>
          bind (pt_qkv self (pra_qconv2d self) x B N C) (\<lambda>q.
          bind (pt_qkv self (pra_kconv2d self) x B N C) (\<lambda>k.
          bind (pt_qkv self (pra_vconv2d self) x B N C) (\<lambda>v.
          bind (torch_transpose k (-2) (-1)) (\<lambda>kt.
          bind (matmul q kt) (\<lambda>qk.
          let attn = tensor_scale qk (pra_scale self)
          in bind (softmax attn) (\<lambda>attn_soft.
             bind (pra_attn_drop self attn_soft) (\<lambda>attn_drop.
             bind (if pra_apply_transform self
                   then bind (pra_reatten_matrix self attn_drop) (\<lambda>m.
                        bind (pra_var_norm self m) (\<lambda>bn.
                        Inr (Some (tensor_scale bn (pra_reatten_scale self)))))
                   else Inr None) (\<lambda>attn_norm.
             (case attn_norm of
                None \<Rightarrow> Inl (UnboundLocalError ''attn_norm'')
              | Some attn_norm \<Rightarrow>
                  let attn_next = attn_norm
                  in bind (matmul attn_norm v) (\<lambda>av.
                     bind (torch_transpose av 1 2) (\<lambda>t.
                     bind (tf_reshape t [int B, int N, int C]) (\<lambda>x.
                     bind (pra_proj self x) (\<lambda>x_proj.
                     bind (pra_proj_drop self x_proj) (\<lambda>x_drop.
                     Inr (x_drop, attn_next)))))))))))))))
      | _ \<Rightarrow> Inl ValueError)"

subsection \<open>\<^verbatim>\<open>ViT_model.__init__\<close>\<close>

text \<open>
  Lines 222 to 280. The constructor first checks the depth against the patch size
  with two \<^verbatim>\<open>assert\<close> statements, stores its parameters, and then builds the patch
  encoder from \<^verbatim>\<open>self.preprocessing\<close> and \<^verbatim>\<open>self.dtype\<close>, attributes that are assigned
  nowhere: the read raises \<^verbatim>\<open>AttributeError\<close>. The depth is a natural number.
\<close>

record ViT_model =
  vm_depth :: nat
  vm_depth_te :: nat
  vm_linear_list :: "int list"
  vm_img_size :: int
  vm_patch_size :: pyarg
  vm_num_channels :: int
  vm_num_patches :: int
  vm_projection_dim :: int

definition msg_incompatible :: string where
  "msg_incompatible = ''Depth must be adjusted, final patch size is incompatible.''"

definition msg_too_small :: string where
  "msg_too_small = ''Depth must be adjusted, final patch size is too small (lower than 4).''"

definition ViT_model_init ::
  "nat \<Rightarrow> nat \<Rightarrow> int list \<Rightarrow> int \<Rightarrow> pyarg \<Rightarrow> int \<Rightarrow> error + ViT_model" where
  "ViT_model_init depth depth_te linear_list img_size patch_size num_channels =
     bind (py_mod patch_size (2 ^ depth)) (\<lambda>r.
     if r \<noteq> 0 then Inl (AssertionError msg_incompatible)
     else
       bind (py_floordiv patch_size (2 ^ depth)) (\<lambda>q.
       if \<not> 4 \<le> q then Inl (AssertionError msg_too_small)
       else
         bind (py_rfloordiv img_size patch_size) (\<lambda>n.
         Inl (AttributeError ''preprocessing''))))"


section \<open>Auxiliary notions for the proofs\<close>

text \<open>The element of an image that lands at a position of a patch.\<close>

definition window :: "'a tensor \<Rightarrow> nat \<Rightarrow> nat list \<Rightarrow> 'a" where
  "window X p idx = elem_at X [idx ! 0, idx ! 1 * p + idx ! 3, idx ! 2 * p + idx ! 4, idx ! 5]"

text \<open>
  The three stages of re-attention, to state what \<^verbatim>\<open>ReAttention\<close> computes: the
  softmax-normalised scaled dot-product attention scores (together with the values),
  the re-attention transformation (the \<open>1 \<times> 1\<close> convolution \<^verbatim>\<open>reatten_matrix\<close>, then the
  batch normalisation \<^verbatim>\<open>var_norm\<close>, times \<^verbatim>\<open>reatten_scale\<close>), and the layer output
  computed from an attention map and the values. Each is the corresponding part of the
  source, for the PyTorch module and for the hvit layer.
\<close>

definition pt_attention_scores ::
  "pt_ReAttention \<Rightarrow> real tensor \<Rightarrow> error + (real tensor \<times> real tensor)" where
  "pt_attention_scores self x =
     (case shape x of
        [B, N, C] \<Rightarrow>
          bind (pt_qkv self (pra_qconv2d self) x B N C) (\<lambda>q.
          bind (pt_qkv self (pra_kconv2d self) x B N C) (\<lambda>k.
          bind (pt_qkv self (pra_vconv2d self) x B N C) (\<lambda>v.
          bind (torch_transpose k (-2) (-1)) (\<lambda>kt.
          bind (matmul q kt) (\<lambda>qk.
          bind (softmax (tensor_scale qk (pra_scale self))) (\<lambda>attn_soft.
          Inr (attn_soft, v)))))))
      | _ \<Rightarrow> Inl ValueError)"

definition pt_reattention_transform :: "pt_ReAttention \<Rightarrow> real tensor \<Rightarrow> error + real tensor" where
  "pt_reattention_transform self a =
     bind (pra_reatten_matrix self a) (\<lambda>m.
     bind (pra_var_norm self m) (\<lambda>bn.
     Inr (tensor_scale bn (pra_reatten_scale self))))"

definition pt_attention_output ::
  "pt_ReAttention \<Rightarrow> real tensor \<Rightarrow> real tensor \<Rightarrow> real tensor \<Rightarrow> error + real tensor" where
  "pt_attention_output self x attn v =
     (case shape x of
        [B, N, C] \<Rightarrow>
          bind (matmul attn v) (\<lambda>av.
          bind (torch_transpose av 1 2) (\<lambda>t.
          bind (tf_reshape t [int B, int N, int C]) (\<lambda>x.
          bind (pra_proj self x) (\<lambda>x_proj.
          pra_proj_drop self x_proj))))
      | _ \<Rightarrow> Inl ValueError)"

definition hvit_attention_scores ::
  "(real tensor \<Rightarrow> real tensor) \<Rightarrow> hvit_ReAttention \<Rightarrow> real tensor
     \<Rightarrow> error + (real tensor \<times> real tensor)" where
  "hvit_attention_scores gelu self x =
     (case shape x of
        [_, N, C] \<Rightarrow>
          bind (hvit_create_queries gelu self x ''q'') (\<lambda>q.
          bind (hvit_create_queries gelu self x ''k'') (\<lambda>k.
          bind (hvit_create_queries gelu self x ''v'') (\<lambda>v.
          bind (tf_matmul_transpose_b q k) (\<lambda>qk.
          bind (softmax (tensor_scale qk (ra_scale self))) (\<lambda>attn.
          Inr (attn, v))))))
      | _ \<Rightarrow> Inl ValueError)"

definition hvit_reattention_transform :: "hvit_ReAttention \<Rightarrow> real tensor \<Rightarrow> error + real tensor" where
  "hvit_reattention_transform self a =
     bind (ra_reatten_matrix self a) (\<lambda>m.
     bind (ra_var_norm self m) (\<lambda>bn.
     Inr (tensor_scale bn (ra_reatten_scale self))))"

definition hvit_attention_output ::
  "hvit_ReAttention \<Rightarrow> real tensor \<Rightarrow> real tensor \<Rightarrow> real tensor \<Rightarrow> error + real tensor" where
  "hvit_attention_output self x attn v =
     (case shape x of
        [_, N, C] \<Rightarrow>
          bind (matmul attn v) (\<lambda>av.
          bind (tf_transpose av [0, 2, 1, 3]) (\<lambda>t.
          bind (tf_reshape t [-1, int N, int C]) (\<lambda>x.
          bind (ra_proj self x) (\<lambda>x.
          ra_proj_drop self x))))
      | _ \<Rightarrow> Inl ValueError)"

text \<open>Slice \<open>i\<close> of a tensor along axis 0, as \<^verbatim>\<open>tf.unstack\<close> produces it.\<close>

definition slice0 :: "'a tensor \<Rightarrow> nat \<Rightarrow> 'a tensor" where
  "slice0 T i = tabulate (tl (shape T)) (\<lambda>idx. elem_at T (i # idx))"



section \<open>Concrete inputs\<close>

text \<open>The inputs at which the theorems below are instantiated or the code is run.\<close>

definition image_4x4 :: "nat tensor" where
  "image_4x4 = \<lparr>shape = [1, 4, 4, 1], data = [0..<16]\<rparr>"


text \<open>
  A \<open>3 \<times> 3\<close> image with one channel, channels-last and channels-first (with one
  channel the elements are in the same order).
\<close>

definition image_3x3 :: "nat tensor" where
  "image_3x3 = \<lparr>shape = [1, 3, 3, 1], data = [0..<9]\<rparr>"

definition image_3x3_channels_first :: "nat tensor" where
  "image_3x3_channels_first = \<lparr>shape = [1, 1, 3, 3], data = [0..<9]\<rparr>"

text \<open>
  Arguments for the constructor of the PyTorch \<^verbatim>\<open>PatchEncoder\<close>: a host on which every
  device can be allocated, a host without CUDA, and initial weights that are zero.
\<close>

definition every_device :: "string \<Rightarrow> bool" where
  "every_device d = True"

definition cpu_only :: "string \<Rightarrow> bool" where
  "cpu_only d \<longleftrightarrow> d = ''cpu''"

definition zero_weight :: "nat \<Rightarrow> nat \<Rightarrow> int" where
  "zero_weight i j = 0"

definition zero_bias :: "nat \<Rightarrow> int" where
  "zero_bias i = 0"

text \<open>
  A PyTorch \<^verbatim>\<open>ReAttention\<close> with one head and one channel whose layers are the
  identity, without the transformation, and an input with one patch of one element.
\<close>

definition reattention_plain :: pt_ReAttention where
  "reattention_plain =
     \<lparr>pra_num_heads = 1, pra_num_channels = 1, pra_apply_transform = False,
      pra_scale = 1, pra_reatten_scale = 1,
      pra_reatten_matrix = Inr, pra_var_norm = Inr,
      pra_qconv2d = Inr, pra_kconv2d = Inr, pra_vconv2d = Inr,
      pra_attn_drop = Inr, pra_proj = Inr, pra_proj_drop = Inr\<rparr>"

definition one_patch :: "real tensor" where
  "one_patch = \<lparr>shape = [1, 1, 1], data = [1]\<rparr>"

definition one4 :: "real tensor" where
  "one4 = \<lparr>shape = [1, 1, 1, 1], data = [1]\<rparr>"

text \<open>
  Layers for a run of re-attention in training mode. \<^verbatim>\<open>BatchNorm2d\<close> with one channel
  (and Keras \<^verbatim>\<open>BatchNormalization\<close> on a map with one element), with its initial weight
  1 and bias 0, normalises with the mean and the biased variance of the elements.
  A dropout layer with rate \<open>rate\<close>, at the draw \<open>keep\<close>, zeroes the dropped elements
  and divides the kept ones by \<open>1 - rate\<close>.
\<close>

definition batchnorm_train :: "real \<Rightarrow> real tensor \<Rightarrow> error + real tensor" where
  "batchnorm_train eps t =
     (let n = real (length (data t));
          m = sum_list (data t) / n;
          v = sum_list (map (\<lambda>x. (x - m) ^ 2) (data t)) / n
      in Inr \<lparr>shape = shape t, data = map (\<lambda>x. (x - m) / sqrt (v + eps)) (data t)\<rparr>)"

definition dropout_train :: "real \<Rightarrow> bool list \<Rightarrow> real tensor \<Rightarrow> error + real tensor" where
  "dropout_train rate keep t =
     Inr \<lparr>shape = shape t,
          data = map2 (\<lambda>k x. if k then x / (1 - rate) else 0) keep (data t)\<rparr>"

text \<open>
  \<^verbatim>\<open>ReAttention(dim=1, num_channels=1, num_heads=1, attn_drop=0.5)\<close> of the PyTorch file in
  training mode: \<^verbatim>\<open>scale\<close> is \<open>1 ** -0.5 = 1\<close>, \<^verbatim>\<open>reatten_scale\<close> is \<open>1.0\<close>, the batch
  normalisation has \<^verbatim>\<open>eps=1e-05\<close>, the attention dropout keeps the first element of
  each row, and the convolutions and the projection are the identity. The input is two
  zero patches; on it the convolutions (which have no bias) return zero whatever their
  weights.
\<close>

definition reattention_training :: pt_ReAttention where
  "reattention_training =
     \<lparr>pra_num_heads = 1, pra_num_channels = 1, pra_apply_transform = True,
      pra_scale = 1, pra_reatten_scale = 1,
      pra_reatten_matrix = Inr, pra_var_norm = batchnorm_train (1 / 100000),
      pra_qconv2d = Inr, pra_kconv2d = Inr, pra_vconv2d = Inr,
      pra_attn_drop = dropout_train (1 / 2) [True, False, True, False],
      pra_proj = Inr, pra_proj_drop = Inr\<rparr>"

definition zero_patches :: "real tensor" where
  "zero_patches = \<lparr>shape = [1, 2, 1], data = [0, 0]\<rparr>"

definition zero_qkv :: "real tensor" where
  "zero_qkv = \<lparr>shape = [1, 1, 2, 1], data = [0, 0]\<rparr>"

definition zero_qkv_t :: "real tensor" where
  "zero_qkv_t = \<lparr>shape = [1, 1, 1, 2], data = [0, 0]\<rparr>"

definition zero_heads :: "real tensor" where
  "zero_heads = \<lparr>shape = [1, 2, 1, 1], data = [0, 0]\<rparr>"

definition zero_map :: "real tensor" where
  "zero_map = \<lparr>shape = [1, 1, 2, 2], data = [0, 0, 0, 0]\<rparr>"

definition uniform_map :: "real tensor" where
  "uniform_map = \<lparr>shape = [1, 1, 2, 2], data = [1 / 2, 1 / 2, 1 / 2, 1 / 2]\<rparr>"

definition dropped_map :: "real tensor" where
  "dropped_map = \<lparr>shape = [1, 1, 2, 2], data = [1, 0, 1, 0]\<rparr>"

definition normed_map :: "real tensor" where
  "normed_map = \<lparr>shape = [1, 1, 2, 2],
                 data = [(1 / 2) / sqrt (1 / 4 + 1 / 100000), - (1 / 2) / sqrt (1 / 4 + 1 / 100000),
                         (1 / 2) / sqrt (1 / 4 + 1 / 100000), - (1 / 2) / sqrt (1 / 4 + 1 / 100000)]\<rparr>"

text \<open>
  The hvit layer \<^verbatim>\<open>ReAttention(dim=1, num_patches=1, num_heads=1, attn_drop=0.5)\<close> in
  training mode (\<^verbatim>\<open>epsilon=1e-3\<close>), with a dropout that keeps the one element of the
  map, on one zero patch; the activation maps zero to zero.
\<close>

definition hvit_reattention_training :: hvit_ReAttention where
  "hvit_reattention_training =
     \<lparr>ra_dim = 1, ra_num_heads = 1, ra_num_channels = 1, ra_num_patches = 1,
      ra_apply_transform = True, ra_scale = 1, ra_reatten_scale = 1,
      ra_reatten_matrix = Inr, ra_var_norm = batchnorm_train (1 / 1000),
      ra_qconv2d = Inr, ra_kconv2d = Inr, ra_vconv2d = Inr,
      ra_attn_drop = dropout_train (1 / 2) [True], ra_proj = Inr, ra_proj_drop = Inr\<rparr>"

definition hvit_reattention_plain :: hvit_ReAttention where
  "hvit_reattention_plain =
     \<lparr>ra_dim = 1, ra_num_heads = 1, ra_num_channels = 1, ra_num_patches = 1,
      ra_apply_transform = True, ra_scale = 1, ra_reatten_scale = 1,
      ra_reatten_matrix = Inr, ra_var_norm = Inr,
      ra_qconv2d = Inr, ra_kconv2d = Inr, ra_vconv2d = Inr,
      ra_attn_drop = Inr, ra_proj = Inr, ra_proj_drop = Inr\<rparr>"

definition identity_activation :: "real tensor \<Rightarrow> real tensor" where
  "identity_activation t = t"

definition zero_patch :: "real tensor" where
  "zero_patch = \<lparr>shape = [1, 1, 1], data = [0]\<rparr>"

definition zero4 :: "real tensor" where
  "zero4 = \<lparr>shape = [1, 1, 1, 1], data = [0]\<rparr>"

definition two4 :: "real tensor" where
  "two4 = \<lparr>shape = [1, 1, 1, 1], data = [2]\<rparr>"

text \<open>The default configuration of the \<^verbatim>\<open>PatchEncoder\<close> layers: a \<open>128 \<times> 128\<close> image with
  one channel.\<close>

definition image_128 :: "int tensor" where
  "image_128 = \<lparr>shape = [1, 128, 128, 1], data = replicate 16384 0\<rparr>"


section \<open>Lemmas\<close>


lemma valid_index_Nil [simp]: "valid_index [] idx \<longleftrightarrow> idx = []"
  by (simp add: valid_index_def)

lemma valid_index_Cons: "valid_index (d # ds) idx \<longleftrightarrow> (\<exists>i is. idx = i # is \<and> i < d \<and> valid_index ds is)"
  by (auto simp: valid_index_def list_all2_Cons2)

lemma valid_index_Cons_Cons [simp]: "valid_index (d # ds) (i # is) \<longleftrightarrow> i < d \<and> valid_index ds is"
  by (simp add: valid_index_def)

lemma valid_index_length: "valid_index sh idx \<Longrightarrow> length idx = length sh"
  by (simp add: valid_index_def list_all2_lengthD)

lemma valid_index_nth: "valid_index sh idx \<Longrightarrow> a < length sh \<Longrightarrow> idx ! a < sh ! a"
  by (simp add: valid_index_def list_all2_nthD2)

lemma valid_indexI: "length idx = length sh \<Longrightarrow> (\<And>a. a < length sh \<Longrightarrow> idx ! a < sh ! a) \<Longrightarrow> valid_index sh idx"
  by (simp add: valid_index_def list_all2_conv_all_nth)

lemma ravel_less: "valid_index sh idx \<Longrightarrow> ravel sh idx < prod_list sh"
proof (induction sh arbitrary: idx)
  case Nil
  then show ?case by simp
next
  case (Cons d ds)
  then obtain i "is" where idx: "idx = i # is" and i: "i < d" and v: "valid_index ds is"
    by (auto simp: valid_index_Cons)
  have "ravel ds is < prod_list ds" using Cons.IH v by blast
  then have "i * prod_list ds + ravel ds is < (i + 1) * prod_list ds" by simp
  also have "\<dots> \<le> d * prod_list ds" using i by (intro mult_le_mono1) simp
  finally show ?case by (simp add: idx)
qed

lemma unravel_ravel: "valid_index sh idx \<Longrightarrow> unravel sh (ravel sh idx) = idx"
proof (induction sh arbitrary: idx)
  case Nil
  then show ?case by simp
next
  case (Cons d ds)
  then obtain i "is" where idx: "idx = i # is" and i: "i < d" and v: "valid_index ds is"
    by (auto simp: valid_index_Cons)
  have r: "ravel ds is < prod_list ds" using v by (rule ravel_less)
  show ?case using Cons.IH [OF v] r by (simp add: idx)
qed

lemma valid_unravel: "k < prod_list sh \<Longrightarrow> valid_index sh (unravel sh k)"
proof (induction sh arbitrary: k)
  case Nil
  then show ?case by simp
next
  case (Cons d ds)
  have pos: "0 < prod_list ds" using Cons.prems by (cases "prod_list ds = 0") auto
  have "k div prod_list ds < d"
    using Cons.prems pos by (simp add: less_mult_imp_div_less mult.commute)
  moreover have "valid_index ds (unravel ds (k mod prod_list ds))"
    using Cons.IH pos by simp
  ultimately show ?case by simp
qed

lemma ravel_unravel: "k < prod_list sh \<Longrightarrow> ravel sh (unravel sh k) = k"
proof (induction sh arbitrary: k)
  case Nil
  then show ?case by simp
next
  case (Cons d ds)
  have pos: "0 < prod_list ds" using Cons.prems by (cases "prod_list ds = 0") auto
  show ?case using Cons.IH [of "k mod prod_list ds"] pos by simp
qed

lemma shape_tabulate [simp]: "shape (tabulate sh f) = sh"
  by (simp add: tabulate_def)

lemma well_formed_tabulate [simp]: "well_formed (tabulate sh f)"
  by (simp add: tabulate_def well_formed_def)

lemma elem_at_tabulate: "valid_index sh idx \<Longrightarrow> elem_at (tabulate sh f) idx = f idx"
  by (simp add: elem_at_def tabulate_def ravel_less unravel_ravel)

lemma tensor_eqI:
  assumes "well_formed A" "well_formed B" "shape A = shape B"
    and "\<And>idx. valid_index (shape A) idx \<Longrightarrow> elem_at A idx = elem_at B idx"
  shows "A = B"
proof -
  have len: "length (data A) = length (data B)" using assms(1-3) by (simp add: well_formed_def)
  have "data A ! k = data B ! k" if "k < length (data A)" for k
  proof -
    have k: "k < prod_list (shape A)" using that assms(1) by (simp add: well_formed_def)
    have "elem_at A (unravel (shape A) k) = elem_at B (unravel (shape A) k)"
      using assms(4) valid_unravel [OF k] by blast
    then show ?thesis using k assms(3) ravel_unravel [OF k] by (simp add: elem_at_def)
  qed
  then have "data A = data B" using len by (simp add: nth_equalityI)
  then show ?thesis using assms(3) by simp
qed




lemma bind_Inr [simp]: "bind (Inr x) f = f x"
  by (simp add: bind_def)

lemma bind_Inl [simp]: "bind (Inl e) f = Inl e"
  by (simp add: bind_def)

lemma tabulate_cong:
  "(\<And>idx. valid_index sh idx \<Longrightarrow> f idx = g idx) \<Longrightarrow> tabulate sh f = tabulate sh g"
  by (simp add: tabulate_def valid_unravel)

lemma locate_replicate:
  "0 < d \<Longrightarrow> i < n * d \<Longrightarrow> locate (replicate n d) i = (i div d, i mod d)"
proof (induction n arbitrary: i)
  case 0
  then show ?case by simp
next
  case (Suc n)
  show ?case
  proof (cases "i < d")
    case True
    then show ?thesis by simp
  next
    case False
    then have "i - d < n * d" using Suc.prems by simp
    then have "locate (replicate n d) (i - d) = ((i - d) div d, (i - d) mod d)"
      using Suc.IH Suc.prems(1) by blast
    moreover have "Suc ((i - d) div d) = i div d" using False Suc.prems(1)
      by (simp add: le_div_geq)
    moreover have "(i - d) mod d = i mod d" using False
      by (simp add: le_mod_geq)
    ultimately show ?thesis using False by simp
  qed
qed

lemma isqrt_bounds: "isqrt n * isqrt n \<le> n \<and> n < (isqrt n + 1) * (isqrt n + 1)"
proof (induction n)
  case 0
  then show ?case by simp
next
  case (Suc n)
  then show ?case by (auto simp: Let_def)
qed

lemma isqrt_square [simp]: "isqrt (k * k) = k"
proof -
  let ?r = "isqrt (k * k)"
  have b: "?r * ?r \<le> k * k \<and> k * k < (?r + 1) * (?r + 1)" by (rule isqrt_bounds)
  have "?r \<le> k"
  proof (rule ccontr)
    assume "\<not> ?r \<le> k"
    then have "k + 1 \<le> ?r" by simp
    then have "(k + 1) * (k + 1) \<le> ?r * ?r" using mult_le_mono by blast
    then show False using b by simp
  qed
  moreover have "k \<le> ?r"
  proof (rule ccontr)
    assume "\<not> k \<le> ?r"
    then have "?r + 1 \<le> k" by simp
    then have "(?r + 1) * (?r + 1) \<le> k * k" using mult_le_mono by blast
    then show False using b by simp
  qed
  ultimately show ?thesis by simp
qed

lemma tf_split_Inr:
  assumes "axis < length (shape T)" "0 < n" "shape T ! axis = n * m"
  shows "tf_split T n axis =
           Inr (map (\<lambda>t. tabulate ((shape T)[axis := m])
                            (\<lambda>idx. elem_at T (idx[axis := t * m + idx ! axis]))) [0..<n])"
  using assms by (simp add: tf_split_def rank_def)

lemma tf_stack_Inr:
  assumes "Ts \<noteq> []" "\<And>U. U \<in> set Ts \<Longrightarrow> shape U = sh" "axis \<le> length sh"
  shows "tf_stack Ts axis =
           Inr (tabulate (take axis sh @ [length Ts] @ drop axis sh)
                  (\<lambda>idx. elem_at (Ts ! (idx ! axis)) (take axis idx @ drop (Suc axis) idx)))"
proof -
  obtain T Ts' where Ts: "Ts = T # Ts'" using assms(1) by (cases Ts) auto
  have "shape T = sh" using assms(2) Ts by simp
  then show ?thesis using assms(2,3) by (simp add: tf_stack_def Ts rank_def)
qed

lemma tf_unstack_Inr:
  assumes "axis < length (shape T)"
  shows "tf_unstack T axis =
           Inr (map (\<lambda>t. tabulate (take axis (shape T) @ drop (Suc axis) (shape T))
                            (\<lambda>idx. elem_at T (take axis idx @ [t] @ drop axis idx)))
                    [0..<shape T ! axis])"
  using assms by (simp add: tf_unstack_def rank_def)

lemma tf_concat_Inr:
  assumes "Ts \<noteq> []" "\<And>U. U \<in> set Ts \<Longrightarrow> shape U = sh" "norm_axis axis (length sh) = Inr ax"
    and "ax < length sh"
  shows "tf_concat Ts axis =
           Inr (tabulate (sh[ax := length Ts * sh ! ax])
                  (\<lambda>idx. elem_at (Ts ! (idx ! ax div sh ! ax)) (idx[ax := idx ! ax mod sh ! ax])))"
proof -
  obtain T Ts' where Ts: "Ts = T # Ts'" using assms(1) by (cases Ts) auto
  have T: "shape T = sh" using assms(2) Ts by simp
  have dims: "map (\<lambda>U. shape U ! ax) Ts = replicate (length Ts) (sh ! ax)"
    using assms(2) by (simp add: map_replicate_const [symmetric] cong: map_cong)
  have all: "\<forall>U \<in> set Ts. (shape U)[ax := 0] = (shape T)[ax := 0]"
    using assms(2) T by simp
  have tab: "tabulate (sh[ax := length Ts * sh ! ax])
               (\<lambda>idx. case locate (replicate (length Ts) (sh ! ax)) (idx ! ax) of
                         (t, off) \<Rightarrow> elem_at (Ts ! t) (idx[ax := off]))
             = tabulate (sh[ax := length Ts * sh ! ax])
               (\<lambda>idx. elem_at (Ts ! (idx ! ax div sh ! ax)) (idx[ax := idx ! ax mod sh ! ax]))"
  proof (rule tabulate_cong)
    fix idx
    assume v: "valid_index (sh[ax := length Ts * sh ! ax]) idx"
    have "idx ! ax < length Ts * sh ! ax"
      using valid_index_nth [OF v, of ax] assms(4) by simp
    moreover from this have "0 < sh ! ax" by (cases "sh ! ax = 0") auto
    ultimately have "locate (replicate (length Ts) (sh ! ax)) (idx ! ax)
                     = (idx ! ax div sh ! ax, idx ! ax mod sh ! ax)"
      by (simp add: locate_replicate)
    then show "(case locate (replicate (length Ts) (sh ! ax)) (idx ! ax) of
                  (t, off) \<Rightarrow> elem_at (Ts ! t) (idx[ax := off]))
               = elem_at (Ts ! (idx ! ax div sh ! ax)) (idx[ax := idx ! ax mod sh ! ax])"
      by simp
  qed
  have "tf_concat Ts axis =
          Inr (tabulate ((shape T)[ax := sum_list (map (\<lambda>U. shape U ! ax) Ts)])
                 (\<lambda>idx. case locate (map (\<lambda>U. shape U ! ax) Ts) (idx ! ax) of
                           (t, off) \<Rightarrow> elem_at (Ts ! t) (idx[ax := off])))"
    using all assms(3) T unfolding tf_concat_def Ts rank_def by simp
  then show ?thesis
    by (simp add: dims T sum_list_replicate tab)
qed




lemma out_size_exact: "0 < p \<Longrightarrow> 0 < e \<Longrightarrow> out_size (e * p) p p = e"
proof -
  assume p: "0 < p" and e: "0 < e"
  obtain e' where e': "e = Suc e'" using e by (cases e) auto
  show ?thesis using p by (simp add: out_size_def e')
qed

lemma filter_int_keep: "filter (\<lambda>d. d \<noteq> -1) (map int ds) = map int ds"
  by (induction ds) auto

lemma filter_int_drop: "filter (\<lambda>d. d = -1) (map int ds) = []"
  by (induction ds) auto

lemma tf_reshape_infer:
  assumes "prod_list (shape T) = b * prod_list ds" "0 < prod_list ds"
  shows "tf_reshape T (-1 # map int ds) = Inr \<lparr>shape = b # ds, data = data T\<rparr>"
proof -
  let ?spec = "-1 # map int ds"
  have 1: "\<not> (\<exists>d \<in> set ?spec. d < -1)" by auto
  have 2: "filter (\<lambda>d. d = -1) ?spec = [-1]" by (simp add: filter_int_drop)
  have 3: "prod_list (map nat (filter (\<lambda>d. d \<noteq> -1) ?spec)) = prod_list ds"
    by (simp add: filter_int_keep comp_def)
  have 4: "-1 \<in> set ?spec" by simp
  have 5: "map (\<lambda>d. if d = -1 then v else nat d) (map int ds) = ds" for v
    by (induction ds) auto
  show ?thesis
    unfolding tf_reshape_def Let_def 2 3 using 1 4 assms by (simp add: 5 del: map_map)
qed


lemma hvit_patches_eq:
  assumes "shape X = [B, e * p, e * p, c]" "0 < p" "0 < e" "0 < c"
  shows "hvit_patches X p =
           Inr \<lparr>shape = [B, e * e, p * p * c],
                data = data (tabulate [B, e, e, p, p, c] (window X p))\<rparr>"
proof -
  let ?E = "\<lparr>shape = [B, e, e, p * p * c], data = data (tabulate [B, e, e, p, p, c] (window X p))\<rparr>"
  have E: "tf_image_extract_patches X p p = Inr ?E"
    using assms by (simp add: tf_image_extract_patches_def out_size_exact window_def [abs_def])
  have R: "tf_reshape ?E (-1 # map int [e * e, p * p * c]) = Inr \<lparr>shape = B # [e * e, p * p * c], data = data ?E\<rparr>"
    using assms by (intro tf_reshape_infer) simp_all
  show ?thesis
    using assms E R by (simp add: hvit_patches_def py_index_def floordiv_def power2_eq_square)
qed

lemma hvit_unflatten_eq:
  assumes "shape P = [B, n, p * p * c]" "0 < p" "0 < n" "0 < c"
  shows "hvit_unflatten P c = Inr \<lparr>shape = [B, n, p, p, c], data = data P\<rparr>"
proof -
  have R: "tf_reshape P (-1 # map int [n, p, p, c]) = Inr \<lparr>shape = B # [n, p, p, c], data = data P\<rparr>"
    using assms by (intro tf_reshape_infer) simp_all
  show ?thesis using assms R by (simp add: hvit_unflatten_def rank_def floordiv_def)
qed




lemma valid_index4:
  "valid_index [a, b, c, d] idx \<longleftrightarrow> (\<exists>i j k l. idx = [i, j, k, l] \<and> i < a \<and> j < b \<and> k < c \<and> l < d)"
  by (auto simp: valid_index_def list_all2_Cons2)

lemma div_less_of_less_mult: "(y::nat) < e * p \<Longrightarrow> y div p < e"
  by (simp add: less_mult_imp_div_less)

lemma hvit_unpatch_eq:
  assumes sh: "shape U = [B, e * e, p, p, c]" and p: "0 < p" and e: "0 < e" and c: "0 < c"
  shows "\<exists>N. hvit_unpatch U c = Inr \<lparr>shape = [B, 1, p * e, p * e, c], data = data N\<rparr>
             \<and> shape N = [B, e * p, e * p, c] \<and> well_formed N
             \<and> (\<forall>b y x ch. b < B \<and> y < e * p \<and> x < e * p \<and> ch < c \<longrightarrow>
                   elem_at N [b, y, x, ch] = elem_at U [b, (y div p) * e + x div p, y mod p, x mod p, ch])"
proof -
  define parts where "parts = map (\<lambda>t. tabulate ((shape U)[1 := e])
                            (\<lambda>idx. elem_at U (idx[1 := t * e + idx ! 1]))) [0..<e]"
  have parts: "tf_split U e 1 = Inr parts"
    unfolding parts_def using sh e by (intro tf_split_Inr) simp_all
  have parts_sh: "shape V = [B, e, p, p, c]" if "V \<in> set parts" for V
    using that sh by (auto simp: parts_def)
  have parts_ne: "parts \<noteq> []" and parts_len: "length parts = e" using e by (simp_all add: parts_def)
  define S where "S = tabulate (take 1 [B, e, p, p, c] @ [length parts] @ drop 1 [B, e, p, p, c])
                  (\<lambda>idx. elem_at (parts ! (idx ! 1)) (take 1 idx @ drop (Suc 1) idx))"
  have S: "tf_stack parts 1 = Inr S"
    unfolding S_def using parts_ne parts_sh by (intro tf_stack_Inr) simp_all
  have S_sh: "shape S = [B, e, e, p, p, c]" by (simp add: S_def parts_len)
  define cols where "cols = map (\<lambda>t. tabulate (take 2 (shape S) @ drop (Suc 2) (shape S))
                            (\<lambda>idx. elem_at S (take 2 idx @ [t] @ drop 2 idx))) [0..<shape S ! 2]"
  have cols: "tf_unstack S 2 = Inr cols"
    unfolding cols_def using S_sh by (intro tf_unstack_Inr) simp
  have cols_sh: "shape V = [B, e, p, p, c]" if "V \<in> set cols" for V
    using that S_sh by (auto simp: cols_def)
  have cols_ne: "cols \<noteq> []" and cols_len: "length cols = e" using e S_sh by (simp_all add: cols_def)
  define M where "M = tabulate ([B, e, p, p, c][3 := length cols * [B, e, p, p, c] ! 3])
                  (\<lambda>idx. elem_at (cols ! (idx ! 3 div [B, e, p, p, c] ! 3)) (idx[3 := idx ! 3 mod [B, e, p, p, c] ! 3]))"
  have M: "tf_concat cols (-2) = Inr M"
    unfolding M_def using cols_ne cols_sh by (intro tf_concat_Inr) (simp_all add: norm_axis_def)
  have M_sh: "shape M = [B, e, p, e * p, c]" by (simp add: M_def cols_len)
  define rows where "rows = map (\<lambda>t. tabulate (take 1 (shape M) @ drop (Suc 1) (shape M))
                            (\<lambda>idx. elem_at M (take 1 idx @ [t] @ drop 1 idx))) [0..<shape M ! 1]"
  have rows: "tf_unstack M 1 = Inr rows"
    unfolding rows_def using M_sh by (intro tf_unstack_Inr) simp
  have rows_sh: "shape V = [B, p, e * p, c]" if "V \<in> set rows" for V
    using that M_sh by (auto simp: rows_def)
  have rows_ne: "rows \<noteq> []" and rows_len: "length rows = e" using e M_sh by (simp_all add: rows_def)
  define N where "N = tabulate ([B, p, e * p, c][1 := length rows * [B, p, e * p, c] ! 1])
                  (\<lambda>idx. elem_at (rows ! (idx ! 1 div [B, p, e * p, c] ! 1)) (idx[1 := idx ! 1 mod [B, p, e * p, c] ! 1]))"
  have N: "tf_concat rows (-3) = Inr N"
    unfolding N_def using rows_ne rows_sh by (intro tf_concat_Inr) (simp_all add: norm_axis_def)
  have N_sh: "shape N = [B, e * p, e * p, c]" by (simp add: N_def rows_len)
  have N_wf: "well_formed N" by (simp add: N_def)
  have R: "tf_reshape N (-1 # map int [1, p * e, p * e, c]) = Inr \<lparr>shape = B # [1, p * e, p * e, c], data = data N\<rparr>"
    using N_sh p e c by (intro tf_reshape_infer) (simp_all add: mult_ac)
  have run: "hvit_unpatch U c = Inr \<lparr>shape = [B, 1, p * e, p * e, c], data = data N\<rparr>"
    using sh parts S cols M rows N R by (simp add: hvit_unpatch_def rank_def unpack5_def)
  have at_N: "elem_at N [b, y, x, ch] = elem_at U [b, (y div p) * e + x div p, y mod p, x mod p, ch]"
    if b: "b < B" and y: "y < e * p" and x: "x < e * p" and ch: "ch < c" for b y x ch
  proof -
    have yd: "y div p < e" and xd: "x div p < e" using y x by (simp_all add: div_less_of_less_mult)
    have ym: "y mod p < p" and xm: "x mod p < p" using p by simp_all
    have 1: "elem_at N [b, y, x, ch] = elem_at (rows ! (y div p)) [b, y mod p, x, ch]"
      unfolding N_def using b y x ch rows_len by (subst elem_at_tabulate) simp_all
    have 2: "elem_at (rows ! (y div p)) [b, y mod p, x, ch] = elem_at M [b, y div p, y mod p, x, ch]"
      unfolding rows_def using b ym x ch yd M_sh by (simp add: elem_at_tabulate)
    have 3: "elem_at M [b, y div p, y mod p, x, ch] = elem_at (cols ! (x div p)) [b, y div p, y mod p, x mod p, ch]"
      unfolding M_def using b yd ym x ch cols_len by (subst elem_at_tabulate) simp_all
    have 4: "elem_at (cols ! (x div p)) [b, y div p, y mod p, x mod p, ch]
             = elem_at S [b, y div p, x div p, y mod p, x mod p, ch]"
      unfolding cols_def using b yd ym xm xd ch S_sh by (simp add: elem_at_tabulate)
    have 5: "elem_at S [b, y div p, x div p, y mod p, x mod p, ch]
             = elem_at (parts ! (y div p)) [b, x div p, y mod p, x mod p, ch]"
      unfolding S_def using b yd ym xm xd ch parts_len by (subst elem_at_tabulate) simp_all
    have 6: "elem_at (parts ! (y div p)) [b, x div p, y mod p, x mod p, ch]
             = elem_at U [b, (y div p) * e + x div p, y mod p, x mod p, ch]"
      unfolding parts_def using b yd ym xm xd ch sh by (simp add: elem_at_tabulate)
    show ?thesis using 1 2 3 4 5 6 by simp
  qed
  show ?thesis using run N_sh N_wf at_N by blast
qed




lemma ravel_merge_patch_axes:
  "j < e \<Longrightarrow> ravel [B, e * e, p, p, c] [b, i * e + j, r, q, ch] = ravel [B, e, e, p, p, c] [b, i, j, r, q, ch]"
  by (simp add: algebra_simps)


lemma traverse_Inr:
  "(\<And>x. x \<in> set xs \<Longrightarrow> f x = Inr (g x)) \<Longrightarrow> traverse f xs = Inr (map g xs)"
  by (induction xs) simp_all

lemma sqrt_is_whole_iff: "sqrt_is_whole n \<longleftrightarrow> (\<exists>k. n = k * k)"
proof
  assume "sqrt_is_whole n"
  then show "\<exists>k. n = k * k" unfolding sqrt_is_whole_def by metis
next
  assume "\<exists>k. n = k * k"
  then show "sqrt_is_whole n" by (auto simp: sqrt_is_whole_def)
qed

lemma bind_eq_Inr_iff: "bind m f = Inr y \<longleftrightarrow> (\<exists>x. m = Inr x \<and> f x = Inr y)"
  by (cases m) simp_all

lemma num_patches_ok:
  assumes "0 \<notin> set patch_size"
  shows "traverse (\<lambda>patch. bind (floordiv img_size patch) (\<lambda>q. Inr (q ^ 2))) patch_size
         = Inr (map (\<lambda>patch. (img_size div patch) ^ 2) patch_size)"
proof (rule traverse_Inr)
  fix x assume "x \<in> set patch_size"
  then have "x \<noteq> 0" using assms by metis
  then show "bind (floordiv img_size x) (\<lambda>q. Inr (q ^ 2)) = Inr ((img_size div x) ^ 2)"
    by (simp add: floordiv_def)
qed

lemma out_size_div: "0 < p \<Longrightarrow> p \<le> s \<Longrightarrow> out_size s p p = s div p"
  by (simp add: out_size_def le_div_geq)

lemma hvit_patches_any:
  assumes sh: "shape X = [B, s, s, c]" and p: "0 < p" and ps: "p \<le> s" and c: "0 < c"
  shows "\<exists>P. hvit_patches X p = Inr P \<and> shape P = [B, (s div p) ^ 2, p * p * c]"
proof -
  let ?d = "s div p"
  let ?E = "\<lparr>shape = [B, ?d, ?d, p * p * c],
              data = data (tabulate [B, ?d, ?d, p, p, c]
                       (\<lambda>idx. elem_at X [idx ! 0, idx ! 1 * p + idx ! 3, idx ! 2 * p + idx ! 4, idx ! 5]))\<rparr>"
  have d: "0 < ?d" using p ps by (simp add: div_greater_zero_iff)
  have E: "tf_image_extract_patches X p p = Inr ?E"
    using sh p ps by (simp add: tf_image_extract_patches_def out_size_div)
  have R: "tf_reshape ?E (-1 # map int [?d ^ 2, p * p * c])
             = Inr \<lparr>shape = B # [?d ^ 2, p * p * c], data = data ?E\<rparr>"
    using d p c by (intro tf_reshape_infer) (simp_all add: power2_eq_square)
  have "hvit_patches X p = Inr \<lparr>shape = [B, ?d ^ 2, p * p * c], data = data ?E\<rparr>"
    using sh p E R by (simp add: hvit_patches_def py_index_def floordiv_def)
  then show ?thesis by simp
qed

lemma traverse_map_Inr:
  "(\<And>i. i \<in> set js \<Longrightarrow> f (h i) = Inr (g i)) \<Longrightarrow> traverse f (map h js) = Inr (map g js)"
  by (induction js) simp_all

lemma valid_index_hd_tl:
  "valid_index (d # sh) idx \<Longrightarrow> hd idx < d \<and> valid_index sh (tl idx) \<and> idx = hd idx # tl idx"
  by (auto simp: valid_index_Cons)

lemma shape_slice0 [simp]: "shape (slice0 T i) = tl (shape T)"
  by (simp add: slice0_def)

lemma elem_at_slice0: "valid_index (tl (shape T)) idx \<Longrightarrow> elem_at (slice0 T i) idx = elem_at T (i # idx)"
  by (simp add: slice0_def elem_at_tabulate)

lemma tf_unstack0: "shape T \<noteq> [] \<Longrightarrow> tf_unstack T 0 = Inr (map (slice0 T) [0..<hd (shape T)])"
  by (cases "shape T") (simp_all add: tf_unstack_def rank_def slice0_def)

lemma tf_map_fn_Inr:
  assumes ne: "shape T = d # rest" and d: "0 < d"
    and fn: "\<And>i. i < d \<Longrightarrow> fn (slice0 T i) = Inr (g i)"
    and sh: "\<And>i. i < d \<Longrightarrow> shape (g i) = sh'"
  shows "tf_map_fn fn T = Inr (tabulate (d # sh') (\<lambda>idx. elem_at (g (hd idx)) (tl idx)))"
proof -
  have u: "tf_unstack T 0 = Inr (map (slice0 T) [0..<d])"
    using tf_unstack0 [of T] ne by simp
  have t: "traverse fn (map (slice0 T) [0..<d]) = Inr (map g [0..<d])"
    using fn by (intro traverse_map_Inr) simp
  have s: "tf_stack (map g [0..<d]) 0
           = Inr (tabulate (take 0 sh' @ [length (map g [0..<d])] @ drop 0 sh')
                   (\<lambda>idx. elem_at (map g [0..<d] ! (idx ! 0)) (take 0 idx @ drop (Suc 0) idx)))"
    using d sh by (intro tf_stack_Inr) auto
  have c: "tabulate (d # sh') (\<lambda>idx. elem_at (map g [0..<d] ! (idx ! 0)) (drop (Suc 0) idx))
           = tabulate (d # sh') (\<lambda>idx. elem_at (g (hd idx)) (tl idx))"
  proof (rule tabulate_cong)
    fix idx assume "valid_index (d # sh') idx"
    then obtain i "is" where "idx = i # is" "i < d" by (auto simp: valid_index_Cons)
    then show "elem_at (map g [0..<d] ! (idx ! 0)) (drop (Suc 0) idx) = elem_at (g (hd idx)) (tl idx)"
      by simp
  qed
  show ?thesis using u t s c by (simp add: tf_map_fn_def)
qed

lemma ravel_merge3: "j < e \<Longrightarrow> ravel [e * e, p, p] [i * e + j, r, q] = ravel [e, e, p, p] [i, j, r, q]"
  by (simp add: algebra_simps)

lemma less_grid: "(i::nat) < e \<Longrightarrow> j < e \<Longrightarrow> i * e + j < e * e"
proof -
  assume i: "i < e" and j: "j < e"
  have "i * e + j < i * e + e" using j by simp
  also have "\<dots> = (i + 1) * e" by simp
  also have "\<dots> \<le> e * e" using i by (intro mult_le_mono1) simp
  finally show ?thesis .
qed

lemma less_pixel: "(i::nat) < e \<Longrightarrow> r < p \<Longrightarrow> i * p + r < e * p"
proof -
  assume i: "i < e" and r: "r < p"
  have "i * p + r < i * p + p" using r by simp
  also have "\<dots> = (i + 1) * p" by simp
  also have "\<dots> \<le> e * p" using i by (intro mult_le_mono1) simp
  finally show ?thesis .
qed

lemma patches_2d_eq:
  assumes sh: "shape Z = [e * p, e * p]" and p: "0 < p" and e: "0 < e"
  shows "\<exists>R. patches_2d p Z = Inr R \<and> shape R = [e * e, p, p]
           \<and> (\<forall>i j r q. i < e \<and> j < e \<and> r < p \<and> q < p \<longrightarrow>
                 elem_at R [i * e + j, r, q] = elem_at Z [i * p + r, j * p + q])"
proof -
  have fd: "floordiv (e * p) p = Inr e" using p by (simp add: floordiv_def)
  define parts where "parts = map (\<lambda>t. tabulate ((shape Z)[0 := p])
                            (\<lambda>idx. elem_at Z (idx[0 := t * p + idx ! 0]))) [0..<e]"
  have parts: "tf_split Z e 0 = Inr parts"
    unfolding parts_def using sh e by (intro tf_split_Inr) simp_all
  have parts_sh: "shape V = [p, e * p]" if "V \<in> set parts" for V
    using that sh by (auto simp: parts_def)
  have parts_ne: "parts \<noteq> []" and parts_len: "length parts = e" using e by (simp_all add: parts_def)
  define Xm where "Xm = tabulate (take 0 [p, e * p] @ [length parts] @ drop 0 [p, e * p])
                  (\<lambda>idx. elem_at (parts ! (idx ! 0)) (take 0 idx @ drop (Suc 0) idx))"
  have Xm: "tf_stack parts 0 = Inr Xm"
    unfolding Xm_def using parts_ne parts_sh by (intro tf_stack_Inr) simp_all
  have Xm_sh: "shape Xm = [e, p, e * p]" by (simp add: Xm_def parts_len)
  define cols where "cols i = map (\<lambda>t. tabulate ((shape (slice0 Xm i))[1 := p])
                            (\<lambda>idx. elem_at (slice0 Xm i) (idx[1 := t * p + idx ! 1]))) [0..<e]" for i
  define g where "g i = tabulate (take 0 [p, p] @ [length (cols i)] @ drop 0 [p, p])
                  (\<lambda>idx. elem_at (cols i ! (idx ! 0)) (take 0 idx @ drop (Suc 0) idx))" for i
  have fn: "bind (floordiv (e * p) p) (\<lambda>nw. bind (tf_split (slice0 Xm i) nw 1) (\<lambda>ps. tf_stack ps 0))
            = Inr (g i)" for i
  proof -
    have c: "tf_split (slice0 Xm i) e 1 = Inr (cols i)"
      unfolding cols_def using Xm_sh e by (intro tf_split_Inr) simp_all
    have c_sh: "shape V = [p, p]" if "V \<in> set (cols i)" for V
      using that Xm_sh by (auto simp: cols_def)
    have c_ne: "cols i \<noteq> []" using e by (simp add: cols_def)
    have "tf_stack (cols i) 0 = Inr (g i)"
      unfolding g_def using c_ne c_sh by (intro tf_stack_Inr) simp_all
    then show ?thesis using fd c by simp
  qed
  have g_sh: "shape (g i) = [e, p, p]" for i by (simp add: g_def cols_def)
  define M where "M = tabulate (e # [e, p, p]) (\<lambda>idx. elem_at (g (hd idx)) (tl idx))"
  have M: "tf_map_fn (\<lambda>y. bind (floordiv (e * p) p) (\<lambda>nw. bind (tf_split y nw 1) (\<lambda>ps. tf_stack ps 0))) Xm
           = Inr M"
    unfolding M_def using Xm_sh e fn g_sh by (intro tf_map_fn_Inr) simp_all
  have R: "tf_reshape M (-1 # map int [p, p]) = Inr \<lparr>shape = (e * e) # [p, p], data = data M\<rparr>"
    using p by (intro tf_reshape_infer) (simp_all add: M_def)
  define Rr where "Rr = \<lparr>shape = [e * e, p, p], data = data M\<rparr>"
  have run: "patches_2d p Z = Inr Rr"
    using sh fd parts Xm M R by (simp add: patches_2d_def Rr_def)
  have el: "elem_at Rr [i * e + j, r, q] = elem_at Z [i * p + r, j * p + q]"
    if i: "i < e" and j: "j < e" and r: "r < p" and q: "q < p" for i j r q
  proof -
    have jq: "j * p + q < e * p" using j q by (rule less_pixel)
    have 1: "elem_at Rr [i * e + j, r, q] = elem_at M [i, j, r, q]"
      using j by (simp add: elem_at_def Rr_def M_def ravel_merge3 del: ravel.simps)
    have 2: "elem_at M [i, j, r, q] = elem_at (g i) [j, r, q]"
      unfolding M_def using i j r q by (subst elem_at_tabulate) simp_all
    have 3: "elem_at (g i) [j, r, q] = elem_at (cols i ! j) [r, q]"
      unfolding g_def using j r q by (subst elem_at_tabulate) (simp_all add: cols_def)
    have 4: "elem_at (cols i ! j) [r, q] = elem_at (slice0 Xm i) [r, j * p + q]"
      unfolding cols_def using j r q Xm_sh by (simp add: elem_at_tabulate)
    have 5: "elem_at (slice0 Xm i) [r, j * p + q] = elem_at Xm [i, r, j * p + q]"
      using r jq Xm_sh by (simp add: elem_at_slice0)
    have 6: "elem_at Xm [i, r, j * p + q] = elem_at (parts ! i) [r, j * p + q]"
      unfolding Xm_def using i r jq parts_len by (subst elem_at_tabulate) simp_all
    have 7: "elem_at (parts ! i) [r, j * p + q] = elem_at Z [i * p + r, j * p + q]"
      unfolding parts_def using i r jq sh by (simp add: elem_at_tabulate)
    show ?thesis using 1 2 3 4 5 6 7 by simp
  qed
  show ?thesis using run el by (auto simp: Rr_def)
qed

lemma upt4: "[0..<4] = [0, 1, 2, 3::nat]" by code_simp
lemma upt5: "[0..<5] = [0, 1, 2, 3, 4::nat]" by code_simp

lemma tf_transpose_0312:
  "shape X = [B, h, w, c] \<Longrightarrow>
   tf_transpose X [0, 3, 1, 2] = Inr (tabulate [B, c, h, w] (\<lambda>idx. elem_at X [idx ! 0, idx ! 2, idx ! 3, idx ! 1]))"
  by (simp add: tf_transpose_def rank_def index_of_def upt4 eval_nat_numeral)

lemma tf_transpose_02341:
  "shape Y = [B, c, n, p, q] \<Longrightarrow>
   tf_transpose Y [0, 2, 3, 4, 1]
     = Inr (tabulate [B, n, p, q, c] (\<lambda>idx. elem_at Y [idx ! 0, idx ! 4, idx ! 1, idx ! 2, idx ! 3]))"
  by (simp add: tf_transpose_def rank_def index_of_def upt5 eval_nat_numeral)

lemma tf_transpose_02134:
  "shape Y = [B, c, n, p, q] \<Longrightarrow>
   tf_transpose Y [0, 2, 1, 3, 4]
     = Inr (tabulate [B, n, c, p, q] (\<lambda>idx. elem_at Y [idx ! 0, idx ! 2, idx ! 1, idx ! 3, idx ! 4]))"
  by (simp add: tf_transpose_def rank_def index_of_def upt5 eval_nat_numeral)

lemma tf_transpose_01342:
  "shape Y = [B, n, c, p, q] \<Longrightarrow>
   tf_transpose Y [0, 1, 3, 4, 2]
     = Inr (tabulate [B, n, p, q, c] (\<lambda>idx. elem_at Y [idx ! 0, idx ! 1, idx ! 4, idx ! 2, idx ! 3]))"
  by (simp add: tf_transpose_def rank_def index_of_def upt5 eval_nat_numeral)

lemma tf_patch_eq:
  assumes sh: "shape X = [B, e * p, e * p, c]"
    and p: "0 < p" and e: "0 < e" and c: "0 < c" and B: "0 < B"
  shows "\<exists>T. tf_patch X p = Inr T \<and> shape T = [B, e * e, p, p, c] \<and> well_formed T
           \<and> (\<forall>b i j r q ch. b < B \<and> i < e \<and> j < e \<and> r < p \<and> q < p \<and> ch < c \<longrightarrow>
                 elem_at T [b, i * e + j, r, q, ch] = elem_at X [b, i * p + r, j * p + q, ch])"
proof -
  define XT where "XT = tabulate [B, c, e * p, e * p] (\<lambda>idx. elem_at X [idx ! 0, idx ! 2, idx ! 3, idx ! 1])"
  have XT: "tf_transpose X [0, 3, 1, 2] = Inr XT"
    unfolding XT_def using sh by (rule tf_transpose_0312)
  define Z where "Z b ch = slice0 (slice0 XT b) ch" for b ch
  have Z_sh: "shape (Z b ch) = [e * p, e * p]" for b ch by (simp add: Z_def XT_def)
  define R where "R b ch = projr (patches_2d p (Z b ch))" for b ch
  have R: "patches_2d p (Z b ch) = Inr (R b ch)"
    and R_sh: "shape (R b ch) = [e * e, p, p]"
    and R_el: "\<And>i j r q. i < e \<Longrightarrow> j < e \<Longrightarrow> r < p \<Longrightarrow> q < p \<Longrightarrow>
                 elem_at (R b ch) [i * e + j, r, q] = elem_at (Z b ch) [i * p + r, j * p + q]" for b ch
    using patches_2d_eq [OF Z_sh p e, of b ch] by (auto simp: R_def)
  define G where "G b = tabulate (c # [e * e, p, p]) (\<lambda>idx. elem_at (R b (hd idx)) (tl idx))" for b
  have G: "tf_map_fn (\<lambda>z. patches_2d p z) (slice0 XT b) = Inr (G b)" for b
    unfolding G_def
  proof (rule tf_map_fn_Inr)
    show "shape (slice0 XT b) = c # [e * p, e * p]" by (simp add: XT_def)
    show "0 < c" by (rule c)
    show "patches_2d p (slice0 (slice0 XT b) i) = Inr (R b i)" for i using R [of b i] by (simp add: Z_def)
    show "shape (R b i) = [e * e, p, p]" for i by (rule R_sh)
  qed
  define Out where "Out = tabulate (B # [c, e * e, p, p]) (\<lambda>idx. elem_at (G (hd idx)) (tl idx))"
  have Out: "tf_map_fn (\<lambda>y. tf_map_fn (\<lambda>z. patches_2d p z) y) XT = Inr Out"
    unfolding Out_def
  proof (rule tf_map_fn_Inr)
    show "shape XT = B # [c, e * p, e * p]" by (simp add: XT_def)
    show "0 < B" by (rule B)
    show "tf_map_fn (\<lambda>z. patches_2d p z) (slice0 XT i) = Inr (G i)" for i by (rule G)
    show "shape (G i) = [c, e * e, p, p]" for i by (simp add: G_def)
  qed
  define T where "T = tabulate [B, e * e, p, p, c]
                        (\<lambda>idx. elem_at Out [idx ! 0, idx ! 4, idx ! 1, idx ! 2, idx ! 3])"
  have T: "tf_transpose Out [0, 2, 3, 4, 1] = Inr T"
    unfolding T_def by (rule tf_transpose_02341) (simp add: Out_def)
  have run: "tf_patch X p = Inr T"
    using sh p XT Out T by (simp add: tf_patch_def rank_def)
  have el: "elem_at T [b, i * e + j, r, q, ch] = elem_at X [b, i * p + r, j * p + q, ch]"
    if b: "b < B" and i: "i < e" and j: "j < e" and r: "r < p" and q: "q < p" and ch: "ch < c"
    for b i j r q ch
  proof -
    have k: "i * e + j < e * e" using i j by (rule less_grid)
    have y: "i * p + r < e * p" using i r by (rule less_pixel)
    have x: "j * p + q < e * p" using j q by (rule less_pixel)
    have 1: "elem_at T [b, i * e + j, r, q, ch] = elem_at Out [b, ch, i * e + j, r, q]"
      unfolding T_def using b k r q ch by (subst elem_at_tabulate) simp_all
    have 2: "elem_at Out [b, ch, i * e + j, r, q] = elem_at (G b) [ch, i * e + j, r, q]"
      unfolding Out_def using b k r q ch by (subst elem_at_tabulate) simp_all
    have 3: "elem_at (G b) [ch, i * e + j, r, q] = elem_at (R b ch) [i * e + j, r, q]"
      unfolding G_def using k r q ch by (subst elem_at_tabulate) simp_all
    have 4: "elem_at (R b ch) [i * e + j, r, q] = elem_at (Z b ch) [i * p + r, j * p + q]"
      using i j r q by (rule R_el)
    have 5: "elem_at (Z b ch) [i * p + r, j * p + q] = elem_at (slice0 XT b) [ch, i * p + r, j * p + q]"
      unfolding Z_def using y x by (subst elem_at_slice0) (simp_all add: XT_def)
    have 6: "elem_at (slice0 XT b) [ch, i * p + r, j * p + q] = elem_at XT [b, ch, i * p + r, j * p + q]"
      using ch y x by (subst elem_at_slice0) (simp_all add: XT_def)
    have 7: "elem_at XT [b, ch, i * p + r, j * p + q] = elem_at X [b, i * p + r, j * p + q, ch]"
      unfolding XT_def using b ch y x by (subst elem_at_tabulate) simp_all
    show ?thesis using 1 2 3 4 5 6 7 by simp
  qed
  have "shape T = [B, e * e, p, p, c]" "well_formed T" by (simp_all add: T_def)
  then show ?thesis using run el by blast
qed

lemma ravel_merge_grid:
  "j < e \<Longrightarrow> ravel [B, c, e * e, p, p] [b, ch, i * e + j, r, q] = ravel [B, c, e, e, p, p] [b, ch, i, j, r, q]"
  by (simp add: algebra_simps)

lemma pt_patch_eq:
  assumes sh: "shape Y = [B, c, e * p, e * p]" and p: "0 < p" and e: "0 < e"
  shows "\<exists>P. pt_patch Y p = Inr P \<and> shape P = [B, e * e, c, p, p] \<and> well_formed P
           \<and> (\<forall>b i j ch r q. b < B \<and> i < e \<and> j < e \<and> ch < c \<and> r < p \<and> q < p \<longrightarrow>
                 elem_at P [b, i * e + j, ch, r, q] = elem_at Y [b, ch, i * p + r, j * p + q])"
proof -
  have pe: "p \<le> e * p" using e by (cases e) simp_all
  define U1 where "U1 = tabulate ((shape Y)[2 := out_size (shape Y ! 2) p p] @ [p])
                          (\<lambda>idx. elem_at Y ((butlast idx)[2 := idx ! 2 * p + last idx]))"
  have U1: "torch_unfold Y 2 p p = Inr U1"
    using sh p pe by (simp add: torch_unfold_def rank_def U1_def)
  have U1_sh: "shape U1 = [B, c, e, e * p, p]"
    using sh p e by (simp add: U1_def out_size_exact)
  define U2 where "U2 = tabulate ((shape U1)[3 := out_size (shape U1 ! 3) p p] @ [p])
                          (\<lambda>idx. elem_at U1 ((butlast idx)[3 := idx ! 3 * p + last idx]))"
  have U2: "torch_unfold U1 3 p p = Inr U2"
    using U1_sh p pe by (simp add: torch_unfold_def rank_def U2_def)
  have U2_sh: "shape U2 = [B, c, e, e, p, p]"
    using U1_sh p e by (simp add: U2_def out_size_exact)
  define F where "F = \<lparr>shape = [B, c, e * e, p, p], data = data U2\<rparr>"
  have F: "torch_flatten U2 2 3 = Inr F"
    using U2_sh by (simp add: torch_flatten_def rank_def norm_axis_def F_def)
  define P where "P = tabulate [B, e * e, c, p, p]
                        (\<lambda>idx. elem_at F [idx ! 0, idx ! 2, idx ! 1, idx ! 3, idx ! 4])"
  have P: "torch_permute F [0, 2, 1, 3, 4] = Inr P"
    unfolding P_def torch_permute_def by (rule tf_transpose_02134) (simp add: F_def)
  have run: "pt_patch Y p = Inr P"
    using sh p U1 U2 F P by (simp add: pt_patch_def rank_def Let_def)
  have el: "elem_at P [b, i * e + j, ch, r, q] = elem_at Y [b, ch, i * p + r, j * p + q]"
    if b: "b < B" and i: "i < e" and j: "j < e" and ch: "ch < c" and r: "r < p" and q: "q < p"
    for b i j ch r q
  proof -
    have k: "i * e + j < e * e" using i j by (rule less_grid)
    have x: "j * p + q < e * p" using j q by (rule less_pixel)
    have 1: "elem_at P [b, i * e + j, ch, r, q] = elem_at F [b, ch, i * e + j, r, q]"
      unfolding P_def using b k r q ch by (subst elem_at_tabulate) simp_all
    have 2: "elem_at F [b, ch, i * e + j, r, q] = elem_at U2 [b, ch, i, j, r, q]"
      using j by (simp add: elem_at_def F_def U2_sh ravel_merge_grid del: ravel.simps)
    have 3: "elem_at U2 [b, ch, i, j, r, q] = elem_at U1 [b, ch, i, j * p + q, r]"
      unfolding U2_def using b ch i j r q U1_sh p e
      by (subst elem_at_tabulate) (simp_all add: out_size_exact)
    have 4: "elem_at U1 [b, ch, i, j * p + q, r] = elem_at Y [b, ch, i * p + r, j * p + q]"
      unfolding U1_def using b ch i x r sh p e
      by (subst elem_at_tabulate) (simp_all add: out_size_exact)
    show ?thesis using 1 2 3 4 by simp
  qed
  have "shape P = [B, e * e, c, p, p]" "well_formed P" by (simp_all add: P_def)
  then show ?thesis using run el by blast
qed

lemma valid_index5:
  "valid_index [a, b, c, d, e] idx \<longleftrightarrow>
     (\<exists>i j k l m. idx = [i, j, k, l, m] \<and> i < a \<and> j < b \<and> k < c \<and> l < d \<and> m < e)"
  by (auto simp: valid_index_def list_all2_Cons2)


section \<open>The claims\<close>

subsection \<open>C1: patch extraction and its inverse\<close>

text \<open>
  C1. For every well-formed image tensor \<open>X\<close> of shape \<open>[B, s, s, c]\<close> with a
  non-empty image (\<open>0 < s\<close>, \<open>0 < c\<close>) and a patch size \<open>p\<close> that divides \<open>s\<close>,
  \<^verbatim>\<open>patches(X, p)\<close>, then \<^verbatim>\<open>unflatten\<close> with \<open>c\<close> channels, then \<^verbatim>\<open>unpatch\<close> with \<open>c\<close>
  channels all return, the result has shape \<open>[B, 1, s, s, c]\<close>, and removing its
  singleton axis gives back exactly \<open>X\<close>.
\<close>

theorem patch_roundtrip:
  assumes wfX: "well_formed X" and sh: "shape X = [B, s, s, c]"
    and dvd: "p dvd s" and s: "0 < s" and c: "0 < c"
  shows "\<exists>P U R. hvit_patches X p = Inr P \<and> hvit_unflatten P c = Inr U \<and> hvit_unpatch U c = Inr R
           \<and> shape R = [B, 1, s, s, c] \<and> tf_squeeze R 1 = Inr X"
proof -
  obtain e where se: "s = e * p" using dvd by (auto simp: dvd_def mult.commute)
  have e: "0 < e" using s se by (cases "e = 0") simp_all
  have p: "0 < p" using s se by (cases "p = 0") simp_all
  define G where "G = tabulate [B, e, e, p, p, c] (window X p)"
  define P where "P = \<lparr>shape = [B, e * e, p * p * c], data = data G\<rparr>"
  define U where "U = \<lparr>shape = [B, e * e, p, p, c], data = data G\<rparr>"
  have P: "hvit_patches X p = Inr P"
    unfolding P_def G_def using sh se p e c by (intro hvit_patches_eq) simp_all
  have U: "hvit_unflatten P c = Inr U"
    using hvit_unflatten_eq [of P B "e * e" p c] p e c by (simp add: P_def U_def)
  have "shape U = [B, e * e, p, p, c]" by (simp add: U_def)
  from hvit_unpatch_eq [OF this p e c]
  obtain N where R: "hvit_unpatch U c = Inr \<lparr>shape = [B, 1, p * e, p * e, c], data = data N\<rparr>"
    and N_sh: "shape N = [B, e * p, e * p, c]" and N_wf: "well_formed N"
    and at_N: "\<And>b y x ch. b < B \<Longrightarrow> y < e * p \<Longrightarrow> x < e * p \<Longrightarrow> ch < c \<Longrightarrow>
                 elem_at N [b, y, x, ch] = elem_at U [b, (y div p) * e + x div p, y mod p, x mod p, ch]"
    by blast
  have "N = X"
  proof (rule tensor_eqI)
    show "well_formed N" by (rule N_wf)
    show "well_formed X" by (rule wfX)
    show "shape N = shape X" by (simp add: N_sh sh se)
    fix idx
    assume "valid_index (shape N) idx"
    then obtain b y x ch where idx: "idx = [b, y, x, ch]"
      and b: "b < B" and y: "y < e * p" and x: "x < e * p" and ch: "ch < c"
      by (auto simp: N_sh valid_index4)
    have yd: "y div p < e" and xd: "x div p < e" using y x by (simp_all add: div_less_of_less_mult)
    have ym: "y mod p < p" and xm: "x mod p < p" using p by simp_all
    have "elem_at N idx = elem_at U [b, (y div p) * e + x div p, y mod p, x mod p, ch]"
      using at_N b y x ch by (simp add: idx)
    also have "\<dots> = elem_at G [b, y div p, x div p, y mod p, x mod p, ch]"
      using xd by (simp add: elem_at_def U_def G_def ravel_merge_patch_axes del: ravel.simps)
    also have "\<dots> = window X p [b, y div p, x div p, y mod p, x mod p, ch]"
      unfolding G_def using b yd xd ym xm ch by (subst elem_at_tabulate) simp_all
    also have "\<dots> = elem_at X [b, y, x, ch]"
      by (simp add: window_def)
    finally show "elem_at N idx = elem_at X idx" by (simp add: idx)
  qed
  have pe: "p * e = s" by (simp add: se mult.commute)
  have X: "\<lparr>shape = [B, s, s, c], data = data X\<rparr> = X" using sh by simp
  have "tf_squeeze \<lparr>shape = [B, 1, s, s, c], data = data X\<rparr> 1 = Inr X"
    by (simp add: tf_squeeze_def rank_def X)
  then show ?thesis using P U R unfolding pe \<open>N = X\<close> by simp
qed

theorem patch_roundtrip_witness:
  "well_formed image_4x4 \<and> shape image_4x4 = [1, 4, 4, 1] \<and> (2::nat) dvd 4
   \<and> (\<exists>P U R. hvit_patches image_4x4 2 = Inr P \<and> hvit_unflatten P 1 = Inr U
          \<and> hvit_unpatch U 1 = Inr R \<and> shape R = [1, 1, 4, 4, 1]
          \<and> tf_squeeze R 1 = Inr image_4x4)"
proof -
  have w: "well_formed image_4x4" by (simp add: image_4x4_def well_formed_def)
  have s: "shape image_4x4 = [1, 4, 4, 1]" by (simp add: image_4x4_def)
  have d: "(2::nat) dvd 4" by simp
  show ?thesis using w s d patch_roundtrip [OF w s d] by simp
qed


subsection \<open>C2: the shape that \<^verbatim>\<open>PatchEncoder\<close> returns\<close>

lemma Dense_call_shape:
  "2 \<le> length (shape x) \<Longrightarrow>
   \<exists>y. Dense_call L x = Inr y \<and> shape y = butlast (shape x) @ [dense_units L]"
  by (simp add: Dense_call_def rank_def)

lemma Embedding_range_shape:
  "emb_input_dim E = n \<Longrightarrow>
   \<exists>y. Embedding_call E (tf_range n) = Inr y \<and> shape y = [n, emb_output_dim E]"
  by (simp add: Embedding_call_def tf_range_def)

lemma tensor_add_shape3:
  "shape A = [B, n, d] \<Longrightarrow> shape E = [n, d] \<Longrightarrow>
   \<exists>y. tensor_add A E = Inr y \<and> shape y = [B, n, d]"
  by (simp add: tensor_add_def broadcast_shape_def)

lemma tensor_add_shape5:
  "shape A = [B, n, p, p, d] \<Longrightarrow> shape E = [n, d] \<Longrightarrow>
   (\<forall>y. tensor_add A E = Inr y \<longrightarrow> length (shape y) = 5)
   \<and> (p \<noteq> 1 \<and> n \<noteq> 1 \<and> p \<noteq> n \<longrightarrow> tensor_add A E = Inl FrameworkError)"
  by (auto simp: tensor_add_def broadcast_shape_def)

text \<open>
  \<^verbatim>\<open>PatchEncoder\<close> of \<^verbatim>\<open>src/hvit/tf/functions.py\<close> does what the claim says: for a patch
  size that divides the image size and an image of shape
  \<open>[B, img_size, img_size, num_channels]\<close>, the constructor returns and \<^verbatim>\<open>call\<close> returns a
  tensor of shape \<open>[B, (img_size div patch_size)\<^sup>2, projection_dim]\<close>, where
  \<^verbatim>\<open>projection_dim\<close> is \<open>num_channels * patch_size\<^sup>2\<close> when it is not supplied.
\<close>

lemma hvit_PatchEncoder_call_shape:
  assumes sh: "shape X = [B, img_size, img_size, num_channels]"
    and dvd: "patch_size dvd img_size" and s: "0 < img_size" and c: "0 < num_channels"
  shows "\<exists>self Y. hvit_PatchEncoder_init img_size patch_size num_channels projection_dim kern bias table
                     = Inr self
           \<and> hvit_PatchEncoder_call self X = Inr Y
           \<and> shape Y = [B, (img_size div patch_size) ^ 2,
                         (case projection_dim of Some d \<Rightarrow> d
                          | None \<Rightarrow> num_channels * patch_size ^ 2)]"
proof -
  let ?n = "(img_size div patch_size) ^ 2"
  let ?pd = "case projection_dim of Some d \<Rightarrow> d | None \<Rightarrow> num_channels * patch_size ^ 2"
  have p: "0 < patch_size" using dvd s by (cases "patch_size = 0") simp_all
  have ps: "patch_size \<le> img_size" using dvd s by (simp add: dvd_imp_le)
  define self :: "'a hvit_PatchEncoder" where
    "self = \<lparr>pe_img_size = img_size, pe_patch_size = patch_size,
             pe_num_channels = num_channels, pe_num_patches = ?n, pe_projection_dim = ?pd,
             pe_projection = \<lparr>dense_units = ?pd, dense_kernel = kern, dense_bias = bias\<rparr>,
             pe_position_embedding =
               \<lparr>emb_input_dim = ?n, emb_output_dim = ?pd, emb_table = table\<rparr>\<rparr>"
  have init: "hvit_PatchEncoder_init img_size patch_size num_channels projection_dim kern bias table
              = Inr self"
    using p by (simp add: hvit_PatchEncoder_init_def floordiv_def self_def Let_def)
  obtain P where P: "hvit_patches X patch_size = Inr P"
    and P_sh: "shape P = [B, ?n, patch_size * patch_size * num_channels]"
    using hvit_patches_any [OF sh p ps c] by blast
  obtain D where D: "Dense_call (pe_projection self) P = Inr D" and D_sh: "shape D = [B, ?n, ?pd]"
    using Dense_call_shape [of P "pe_projection self"] P_sh by (auto simp: self_def)
  obtain E where E: "Embedding_call (pe_position_embedding self) (tf_range ?n) = Inr E"
    and E_sh: "shape E = [?n, ?pd]"
    using Embedding_range_shape [of "pe_position_embedding self" ?n] by (auto simp: self_def)
  obtain Y where Y: "tensor_add D E = Inr Y" and Y_sh: "shape Y = [B, ?n, ?pd]"
    using tensor_add_shape3 [OF D_sh E_sh] by blast
  have "hvit_PatchEncoder_call self X = Inr Y"
    using P D E Y by (simp add: hvit_PatchEncoder_call_def self_def Let_def)
  then show ?thesis using init Y_sh by blast
qed




subsection \<open>C3: patch sizes that do not divide the image\<close>





subsection \<open>C5: the depth check of the PyTorch model\<close>

text \<open>
  With an integer patch size \<open>p\<close> the two checks do what their messages say: a depth
  for which \<open>2 ^ depth\<close> does not divide \<open>p\<close> raises \<^verbatim>\<open>AssertionError\<close> with the first
  message, a final patch size below 4 with the second.
\<close>

lemma ViT_model_init_assertion:
  assumes "p mod 2 ^ depth \<noteq> 0 \<or> p div 2 ^ depth < 4"
  shows "ViT_model_init depth depth_te linear_list img_size (PyInt p) num_channels =
           Inl (AssertionError (if p mod 2 ^ depth \<noteq> 0 then msg_incompatible else msg_too_small))
         \<and> msg_incompatible \<noteq> [] \<and> msg_too_small \<noteq> []"
  using assms
  by (auto simp: ViT_model_init_def py_mod_def py_floordiv_def msg_incompatible_def msg_too_small_def)

text \<open>
  C5. The constructor declares \<^verbatim>\<open>patch_size:List[int]=[16,8]\<close> (line 227) and its first
  statement computes \<^verbatim>\<open>patch_size%(2**(depth))\<close>. For every list, and so for the default
  arguments, that operator raises \<^verbatim>\<open>TypeError\<close> before either \<^verbatim>\<open>assert\<close> is evaluated,
  whatever the depth: the constructor raises an exception that is not
  \<^verbatim>\<open>AssertionError\<close>.
\<close>

theorem ViT_model_init_list_TypeError:
  "ViT_model_init depth depth_te linear_list img_size (PyIntList ps) num_channels = Inl TypeError"
  by (simp add: ViT_model_init_def py_mod_def)


subsection \<open>C6: the perfect-square check of \<^verbatim>\<open>Resampling\<close>\<close>

text \<open>
  C6. Take a configuration on which the statements before the check run: at least two
  patch sizes, none of them zero, the second not larger than the image, and a positive
  number of channels. Constructing the hvit \<^verbatim>\<open>Resampling\<close> layer with
  \<^verbatim>\<open>resampling_type='conv'\<close> and a \<^verbatim>\<open>projection_dim\<close> \<open>d\<close> such that
  \<open>d div num_channels\<close> is not a perfect square raises \<^verbatim>\<open>AssertionError\<close> with the
  message of that check. With \<^verbatim>\<open>projection_dim\<close> \<open>None\<close> or a perfect square per channel
  the check does not raise, and when Keras accepts the layers the construction returns
  the object.
\<close>

theorem hvit_Resampling_init_conv:
  assumes len: "2 \<le> length patch_size" and nz: "0 \<notin> set patch_size"
    and fit: "patch_size ! 1 \<le> img_size" and c: "0 < num_channels"
  shows "(\<forall>d. projection_dim = Some d \<and> \<not> (\<exists>k. d div num_channels = k * k) \<longrightarrow>
            hvit_Resampling_init keras img_size patch_size num_channels projection_dim ''conv''
              = Inl (AssertionError msg_conv_square))
       \<and> (projection_dim = None \<or> (\<exists>d k. projection_dim = Some d \<and> d div num_channels = k * k) \<longrightarrow>
            hvit_Resampling_init keras img_size patch_size num_channels projection_dim ''conv''
              \<noteq> Inl (AssertionError msg_conv_square)
            \<and> ((\<forall>l. keras l) \<longrightarrow>
                 (\<exists>self. hvit_Resampling_init keras img_size patch_size num_channels projection_dim ''conv''
                           = Inr self)))"
proof -
  let ?np = "map (\<lambda>patch. (img_size div patch) ^ 2) patch_size"
  let ?pd = "map (\<lambda>patch. case projection_dim of Some d \<Rightarrow> d | None \<Rightarrow> num_channels * patch ^ 2) patch_size"
  have p1: "0 < patch_size ! 1" using len nz by (metis Suc_1 Suc_le_lessD neq0_conv nth_mem)
  have n1: "?np ! 1 \<noteq> 0"
  proof -
    have "0 < img_size div patch_size ! 1" using p1 fit by (simp add: div_greater_zero_iff)
    then show ?thesis using len by simp
  qed
  have i0: "py_index ?np 0 = Inr (?np ! 0)" and i1: "py_index ?np (Suc 0) = Inr (?np ! 1)"
    using len by (auto simp: py_index_def)
  have ps: "traverse (\<lambda>proj. bind (floordiv proj num_channels) (\<lambda>q. Inr (isqrt q))) ?pd
            = Inr (map (\<lambda>proj. isqrt (proj div num_channels)) ?pd)"
    using c by (intro traverse_Inr) (auto simp: floordiv_def)
  have pool: "floordiv (?np ! 0) (?np ! Suc 0) = Inr (?np ! 0 div ?np ! 1)"
    using n1 by (simp add: floordiv_def)
  note base = hvit_Resampling_init_def num_patches_ok [OF nz] i0 i1 pool ps Let_def
  have bad: "hvit_Resampling_init keras img_size patch_size num_channels projection_dim ''conv''
              = Inl (AssertionError msg_conv_square)"
    if "projection_dim = Some d" "\<not> (\<exists>k. d div num_channels = k * k)" for d
  proof -
    have ok: "floordiv d num_channels = Inr (d div num_channels)"
      using c by (simp add: floordiv_def)
    show ?thesis using that by (simp add: base ok sqrt_is_whole_iff)
  qed
  have good: "hvit_Resampling_init keras img_size patch_size num_channels projection_dim ''conv''
                \<noteq> Inl (AssertionError msg_conv_square)
              \<and> ((\<forall>l. keras l) \<longrightarrow>
                 (\<exists>self. hvit_Resampling_init keras img_size patch_size num_channels projection_dim ''conv''
                           = Inr self))"
    if "projection_dim = None \<or> (\<exists>d k. projection_dim = Some d \<and> d div num_channels = k * k)"
  proof -
    have ok: "(case projection_dim of None \<Rightarrow> Inr True
               | Some d \<Rightarrow> bind (floordiv d num_channels) (\<lambda>q. Inr (sqrt_is_whole q))) = Inr True"
      using that c by (auto simp: floordiv_def sqrt_is_whole_iff)
    show ?thesis
      by (simp add: base ok keras_new_def)
  qed
  show ?thesis using bad good by blast
qed

theorem hvit_Resampling_init_conv_witness:
  "hvit_Resampling_init (\<lambda>l. True) 128 [8, 16] 1 (Some 200) ''conv''
     = Inl (AssertionError msg_conv_square)
   \<and> (\<exists>self. hvit_Resampling_init (\<lambda>l. True) 128 [8, 16] 1 (Some 256) ''conv'' = Inr self)
   \<and> (\<exists>self. hvit_Resampling_init (\<lambda>l. True) 128 [8, 16] 1 None ''conv'' = Inr self)"
proof -
  have h: "2 \<le> length [8, 16 :: nat]" "0 \<notin> set [8, 16 :: nat]" "[8, 16 :: nat] ! 1 \<le> 128" "0 < (1::nat)"
    by simp_all
  have "\<not> sqrt_is_whole 200" by code_simp
  then have bad: "\<not> (\<exists>k. (200::nat) div 1 = k * k)" by (simp add: sqrt_is_whole_iff)
  have good: "\<exists>d k. Some (256::nat) = Some d \<and> d div 1 = k * k"
    by (rule exI [of _ 256], rule exI [of _ 16]) simp
  show ?thesis
    using hvit_Resampling_init_conv [OF h, where projection_dim = "Some 200" and keras = "\<lambda>l. True"]
          hvit_Resampling_init_conv [OF h, where projection_dim = "Some 256" and keras = "\<lambda>l. True"]
          hvit_Resampling_init_conv [OF h, where projection_dim = None and keras = "\<lambda>l. True"]
          bad good
    by simp
qed


subsection \<open>C7: where the re-attention transformation is applied\<close>

text \<open>Two runs in training mode, evaluated step by step.\<close>

lemma pt_qkv_cong:
  "pra_num_heads s = pra_num_heads s' \<Longrightarrow> pra_num_channels s = pra_num_channels s' \<Longrightarrow>
   pt_qkv s conv x B N C = pt_qkv s' conv x B N C"
  by (simp add: pt_qkv_def)

lemma t_qkv_plain: "pt_qkv reattention_plain Inr zero_patches 1 2 1 = Inr zero_qkv"
  by code_simp

lemma t_qkv: "pt_qkv reattention_training Inr zero_patches 1 2 1 = Inr zero_qkv"
  using pt_qkv_cong [of reattention_training reattention_plain Inr zero_patches 1 2 1] t_qkv_plain
  by (simp add: reattention_training_def reattention_plain_def)

lemma t_kt: "torch_transpose zero_qkv (-2) (-1) = Inr zero_qkv_t"
  by code_simp

lemma t_mm: "matmul zero_qkv zero_qkv_t = Inr zero_map"
  by code_simp

lemma t_scale: "tensor_scale zero_map 1 = zero_map"
  by code_simp

lemma upt2: "[0..<2] = [0, 1::nat]" by code_simp

lemma t_soft: "softmax zero_map = Inr uniform_map"
  by (simp add: softmax_def zero_map_def uniform_map_def rank_def tabulate_def elem_at_def upt4 upt2)

lemma t_drop: "dropout_train (1 / 2) [True, False, True, False] uniform_map = Inr dropped_map"
  by (simp add: dropout_train_def uniform_map_def dropped_map_def)

lemma t_bn_dropped: "batchnorm_train (1 / 100000) dropped_map = Inr normed_map"
  by (simp add: batchnorm_train_def dropped_map_def normed_map_def Let_def power2_eq_square)

lemma t_bn_uniform: "batchnorm_train (1 / 100000) uniform_map = Inr zero_map"
  by (simp add: batchnorm_train_def uniform_map_def zero_map_def Let_def)

lemma t_av: "matmul normed_map zero_qkv = Inr zero_qkv"
  by (simp add: matmul_def normed_map_def zero_qkv_def rank_def tabulate_def elem_at_def upt2)

lemma t_tr: "torch_transpose zero_qkv 1 2 = Inr zero_heads"
  by code_simp

lemma t_rs: "tf_reshape zero_heads [int 1, int 2, int 1] = Inr zero_patches"
  by code_simp

lemma t_scale_normed: "tensor_scale normed_map 1 = normed_map"
  by (simp add: tensor_scale_def normed_map_def)

lemma t_neq: "normed_map \<noteq> zero_map"
  by (simp add: normed_map_def zero_map_def)

lemma training_fields:
  "pra_qconv2d reattention_training = Inr" "pra_kconv2d reattention_training = Inr"
  "pra_vconv2d reattention_training = Inr"
  "pra_attn_drop reattention_training = dropout_train (1 / 2) [True, False, True, False]"
  "pra_scale reattention_training = 1" "pra_reatten_scale reattention_training = 1"
  "pra_reatten_matrix reattention_training = Inr"
  "pra_var_norm reattention_training = batchnorm_train (1 / 100000)"
  "pra_proj reattention_training = Inr" "pra_proj_drop reattention_training = Inr"
  "pra_apply_transform reattention_training = True"
  by (simp_all add: reattention_training_def)

lemma shape_zero_patches: "shape zero_patches = [1, 2, 1]"
  by (simp add: zero_patches_def)

lemma training_run:
  "pt_attention_scores reattention_training zero_patches = Inr (uniform_map, zero_qkv)"
  "pra_attn_drop reattention_training uniform_map = Inr dropped_map"
  "pt_reattention_transform reattention_training uniform_map = Inr zero_map"
  "pt_reattention_transform reattention_training dropped_map = Inr normed_map"
  "pt_attention_output reattention_training zero_patches normed_map zero_qkv = Inr zero_patches"
proof -
  show "pt_attention_scores reattention_training zero_patches = Inr (uniform_map, zero_qkv)"
    unfolding pt_attention_scores_def shape_zero_patches list.case training_fields t_qkv bind_Inr
      t_kt t_mm t_scale t_soft ..
  show "pra_attn_drop reattention_training uniform_map = Inr dropped_map"
    unfolding training_fields t_drop ..
  show "pt_reattention_transform reattention_training uniform_map = Inr zero_map"
    unfolding pt_reattention_transform_def training_fields bind_Inr t_bn_uniform t_scale ..
  show "pt_reattention_transform reattention_training dropped_map = Inr normed_map"
    unfolding pt_reattention_transform_def training_fields bind_Inr t_bn_dropped t_scale_normed ..
  show "pt_attention_output reattention_training zero_patches normed_map zero_qkv = Inr zero_patches"
    unfolding pt_attention_output_def shape_zero_patches list.case training_fields bind_Inr
      t_av t_tr t_rs ..
qed

lemma training_forward:
  "pt_ReAttention_forward reattention_training zero_patches = Inr (zero_patches, normed_map)"
  unfolding pt_ReAttention_forward_def shape_zero_patches list.case training_fields t_qkv bind_Inr
    t_kt t_mm Let_def t_scale t_soft t_drop if_True t_bn_dropped t_scale_normed option.case
    t_av t_tr t_rs ..

lemma hvit_queries_cong:
  "ra_dim s = ra_dim s' \<Longrightarrow> ra_num_heads s = ra_num_heads s' \<Longrightarrow>
   ra_num_channels s = ra_num_channels s' \<Longrightarrow> ra_num_patches s = ra_num_patches s' \<Longrightarrow>
   ra_qconv2d s = ra_qconv2d s' \<Longrightarrow> ra_kconv2d s = ra_kconv2d s' \<Longrightarrow>
   ra_vconv2d s = ra_vconv2d s' \<Longrightarrow>
   hvit_create_queries g s x l = hvit_create_queries g s' x l"
  by (simp add: hvit_create_queries_def)

lemma h_queries_plain:
  "hvit_create_queries identity_activation hvit_reattention_plain zero_patch ''q'' = Inr zero4"
  "hvit_create_queries identity_activation hvit_reattention_plain zero_patch ''k'' = Inr zero4"
  "hvit_create_queries identity_activation hvit_reattention_plain zero_patch ''v'' = Inr zero4"
  by code_simp+

lemma h_queries:
  "hvit_create_queries identity_activation hvit_reattention_training zero_patch ''q'' = Inr zero4"
  "hvit_create_queries identity_activation hvit_reattention_training zero_patch ''k'' = Inr zero4"
  "hvit_create_queries identity_activation hvit_reattention_training zero_patch ''v'' = Inr zero4"
  using h_queries_plain
    hvit_queries_cong [of hvit_reattention_training hvit_reattention_plain identity_activation zero_patch]
  by (simp_all add: hvit_reattention_training_def hvit_reattention_plain_def)

lemma h_mm: "tf_matmul_transpose_b zero4 zero4 = Inr zero4"
  by code_simp

lemma h_scale: "tensor_scale zero4 1 = zero4"
  by code_simp

lemma h_soft: "softmax zero4 = Inr one4"
  by (simp add: softmax_def one4_def zero4_def rank_def tabulate_def elem_at_def)

lemma h_drop: "dropout_train (1 / 2) [True] one4 = Inr two4"
  by (simp add: dropout_train_def one4_def two4_def)

lemma h_bn: "batchnorm_train (1 / 1000) two4 = Inr zero4"
  by (simp add: batchnorm_train_def two4_def zero4_def Let_def)

lemma h_av: "matmul zero4 zero4 = Inr zero4"
  by code_simp

lemma h_tr: "tf_transpose zero4 [0, 2, 1, 3] = Inr zero4"
  by code_simp

lemma h_rs: "tf_reshape zero4 [-1, int 1, int 1] = Inr zero_patch"
  by code_simp

lemma hvit_training_fields:
  "ra_attn_drop hvit_reattention_training = dropout_train (1 / 2) [True]"
  "ra_scale hvit_reattention_training = 1" "ra_reatten_scale hvit_reattention_training = 1"
  "ra_reatten_matrix hvit_reattention_training = Inr"
  "ra_var_norm hvit_reattention_training = batchnorm_train (1 / 1000)"
  "ra_proj hvit_reattention_training = Inr" "ra_proj_drop hvit_reattention_training = Inr"
  by (simp_all add: hvit_reattention_training_def)

lemma shape_zero_patch: "shape zero_patch = [1, 1, 1]"
  by (simp add: zero_patch_def)

lemma hvit_training_run:
  "hvit_attention_scores identity_activation hvit_reattention_training zero_patch = Inr (one4, zero4)"
  "ra_attn_drop hvit_reattention_training one4 = Inr two4"
  "hvit_reattention_transform hvit_reattention_training two4 = Inr zero4"
  "hvit_attention_output hvit_reattention_training zero_patch zero4 zero4 = Inr zero_patch"
proof -
  show "hvit_attention_scores identity_activation hvit_reattention_training zero_patch = Inr (one4, zero4)"
    unfolding hvit_attention_scores_def shape_zero_patch list.case hvit_training_fields h_queries
      bind_Inr h_mm h_scale h_soft ..
  show "ra_attn_drop hvit_reattention_training one4 = Inr two4"
    unfolding hvit_training_fields h_drop ..
  show "hvit_reattention_transform hvit_reattention_training two4 = Inr zero4"
    unfolding hvit_reattention_transform_def hvit_training_fields bind_Inr h_bn h_scale ..
  show "hvit_attention_output hvit_reattention_training zero_patch zero4 zero4 = Inr zero_patch"
    unfolding hvit_attention_output_def shape_zero_patch list.case hvit_training_fields bind_Inr
      h_av h_tr h_rs ..
qed





subsection \<open>C8: the TensorFlow and the PyTorch patch functions agree\<close>




subsection \<open>C9: the PyTorch \<^verbatim>\<open>PatchEncoder\<close> cannot be constructed\<close>

text \<open>
  The claim says \<^verbatim>\<open>AttributeError\<close> for every argument combination. A zero patch size
  raises \<^verbatim>\<open>ZeroDivisionError\<close> at line 62, a single patch size \<^verbatim>\<open>IndexError\<close> at line
  65, and the default device \<^verbatim>\<open>'cuda:0'\<close> on a host without CUDA makes \<^verbatim>\<open>torch.arange\<close>
  fail at line 66, each before the embedding is reached.
\<close>

theorem pt_PatchEncoder_init_other_errors:
  "pt_PatchEncoder_init every_device 128 [0, 8] 1 ''cuda:0'' zero_weight zero_bias
     = Inl ZeroDivisionError
   \<and> pt_PatchEncoder_init every_device 128 [16] 1 ''cuda:0'' zero_weight zero_bias
     = Inl IndexError
   \<and> pt_PatchEncoder_init cpu_only 128 [16, 8] 1 ''cuda:0'' zero_weight zero_bias
     = Inl FrameworkError"
  by (simp add: pt_PatchEncoder_init_def floordiv_def py_index_def torch_arange_def
        every_device_def cpu_only_def)

text \<open>
  C9, as amended. For every argument combination the constructor of the PyTorch
  \<^verbatim>\<open>PatchEncoder\<close> raises and never returns an object. Whenever the statements before
  the embedding run (at least two patch sizes, none of them zero, a device that PyTorch
  can allocate on), the exception is the \<^verbatim>\<open>AttributeError\<close> for \<^verbatim>\<open>num_patches_final\<close>.
\<close>

theorem pt_PatchEncoder_init_fails:
  "(\<forall>self. pt_PatchEncoder_init device_ok img_size patch_size num_channels device weight bias \<noteq> Inr self)
   \<and> (2 \<le> length patch_size \<and> 0 \<notin> set patch_size \<and> device_ok device \<longrightarrow>
        pt_PatchEncoder_init device_ok img_size patch_size num_channels device weight bias
          = Inl (AttributeError ''num_patches_final''))"
proof
  show "\<forall>self. pt_PatchEncoder_init device_ok img_size patch_size num_channels device weight bias \<noteq> Inr self"
    by (auto simp: pt_PatchEncoder_init_def bind_eq_Inr_iff Let_def)
next
  show "2 \<le> length patch_size \<and> 0 \<notin> set patch_size \<and> device_ok device \<longrightarrow>
        pt_PatchEncoder_init device_ok img_size patch_size num_channels device weight bias
          = Inl (AttributeError ''num_patches_final'')"
  proof
    assume a: "2 \<le> length patch_size \<and> 0 \<notin> set patch_size \<and> device_ok device"
    then have nz: "0 \<notin> set patch_size" and len: "2 \<le> length patch_size" and dev: "device_ok device"
      by simp_all
    have idx: "py_index xs 0 = Inr (xs ! 0)" "py_index xs (Suc 0) = Inr (xs ! 1)"
      if "length xs = length patch_size" for xs :: "nat list"
      using that len by (auto simp: py_index_def)
    show "pt_PatchEncoder_init device_ok img_size patch_size num_channels device weight bias
          = Inl (AttributeError ''num_patches_final'')"
      using dev by (simp add: pt_PatchEncoder_init_def num_patches_ok [OF nz] idx Let_def torch_arange_def)
  qed
qed

theorem pt_PatchEncoder_init_fails_witness:
  "(pt_PatchEncoder_init (\<lambda>d. True) 128 [16, 8] 1 ''cuda:0'' (\<lambda>i j. 0) (\<lambda>i. 0)
      :: error + int pt_PatchEncoder) = Inl (AttributeError ''num_patches_final'')"
  using pt_PatchEncoder_init_fails [of "\<lambda>d. True" 128 "[16, 8]" 1 "''cuda:0''" "\<lambda>i j. (0::int)" "\<lambda>i. 0"]
  by simp


subsection \<open>C10: \<^verbatim>\<open>forward\<close> of the PyTorch \<^verbatim>\<open>ReAttention\<close> without the transformation\<close>

text \<open>
  C10. With \<^verbatim>\<open>apply_transform=False\<close>, \<^verbatim>\<open>forward\<close> never returns normally, whatever the
  input; and on every input for which the statements up to the dropout of the
  attention map run, it raises \<^verbatim>\<open>UnboundLocalError\<close> for \<^verbatim>\<open>attn_norm\<close>.
\<close>

theorem pt_ReAttention_forward_unbound:
  assumes "\<not> pra_apply_transform self"
  shows "(\<forall>r. pt_ReAttention_forward self x \<noteq> Inr r)
       \<and> (\<forall>B N C q k v kt qk soft dropped.
            shape x = [B, N, C]
            \<and> pt_qkv self (pra_qconv2d self) x B N C = Inr q
            \<and> pt_qkv self (pra_kconv2d self) x B N C = Inr k
            \<and> pt_qkv self (pra_vconv2d self) x B N C = Inr v
            \<and> torch_transpose k (-2) (-1) = Inr kt
            \<and> matmul q kt = Inr qk
            \<and> softmax (tensor_scale qk (pra_scale self)) = Inr soft
            \<and> pra_attn_drop self soft = Inr dropped
            \<longrightarrow> pt_ReAttention_forward self x = Inl (UnboundLocalError ''attn_norm''))"
proof
  show "\<forall>r. pt_ReAttention_forward self x \<noteq> Inr r"
    using assms
    by (auto simp: pt_ReAttention_forward_def bind_eq_Inr_iff Let_def split: list.splits)
next
  show "\<forall>B N C q k v kt qk soft dropped.
            shape x = [B, N, C]
            \<and> pt_qkv self (pra_qconv2d self) x B N C = Inr q
            \<and> pt_qkv self (pra_kconv2d self) x B N C = Inr k
            \<and> pt_qkv self (pra_vconv2d self) x B N C = Inr v
            \<and> torch_transpose k (-2) (-1) = Inr kt
            \<and> matmul q kt = Inr qk
            \<and> softmax (tensor_scale qk (pra_scale self)) = Inr soft
            \<and> pra_attn_drop self soft = Inr dropped
            \<longrightarrow> pt_ReAttention_forward self x = Inl (UnboundLocalError ''attn_norm'')"
    using assms by (simp add: pt_ReAttention_forward_def Let_def)
qed

lemma qkv_one_patch: "pt_qkv reattention_plain Inr one_patch 1 1 1 = Inr one4"
  by code_simp

lemma transpose_one4: "torch_transpose one4 (-2) (-1) = Inr one4"
  by code_simp

lemma matmul_one4: "matmul one4 one4 = Inr one4"
  by code_simp

lemma scale_one4: "tensor_scale one4 1 = one4"
  by code_simp

lemma softmax_one4: "softmax one4 = Inr one4"
  by (simp add: softmax_def one4_def rank_def tabulate_def elem_at_def)

theorem pt_ReAttention_forward_unbound_witness:
  "\<not> pra_apply_transform reattention_plain
   \<and> pt_ReAttention_forward reattention_plain one_patch = Inl (UnboundLocalError ''attn_norm'')"
proof -
  have a: "\<not> pra_apply_transform reattention_plain" by (simp add: reattention_plain_def)
  have c: "pra_qconv2d reattention_plain = Inr" "pra_kconv2d reattention_plain = Inr"
    "pra_vconv2d reattention_plain = Inr" "pra_attn_drop reattention_plain = Inr"
    "pra_scale reattention_plain = 1"
    by (simp_all add: reattention_plain_def)
  have h: "shape one_patch = [1, 1, 1]
           \<and> pt_qkv reattention_plain (pra_qconv2d reattention_plain) one_patch 1 1 1 = Inr one4
           \<and> pt_qkv reattention_plain (pra_kconv2d reattention_plain) one_patch 1 1 1 = Inr one4
           \<and> pt_qkv reattention_plain (pra_vconv2d reattention_plain) one_patch 1 1 1 = Inr one4
           \<and> torch_transpose one4 (-2) (-1) = Inr one4
           \<and> matmul one4 one4 = Inr one4
           \<and> softmax (tensor_scale one4 (pra_scale reattention_plain)) = Inr one4
           \<and> pra_attn_drop reattention_plain one4 = Inr one4"
    unfolding c qkv_one_patch transpose_one4 matmul_one4 scale_one4 softmax_one4
    by (simp add: one_patch_def)
  have "pt_ReAttention_forward reattention_plain one_patch = Inl (UnboundLocalError ''attn_norm'')"
    using pt_ReAttention_forward_unbound [OF a, of one_patch] h by blast
  then show ?thesis using a by simp
qed

end
